theory Spec2Isabelle
  imports Complex_Main "HOL-Library.AList"
begin

section \<open>The pretraining driver \<^verbatim>\<open>self_supervised/main_pretrain.py\<close>\<close>

text \<open>
  The script is one function, \<^verbatim>\<open>main(cfg)\<close>, that reads a configuration, calls into
  libraries and finally starts a training run. The embedding keeps its control flow
  statement by statement. Every call that leaves the script is appended to a trace of
  events, in the order of the source; a call may raise, which ends the run with that
  exception, as do the script's own \<^verbatim>\<open>assert\<close> statements. Console output
  (\<^verbatim>\<open>print\<close>) is not part of the model.
\<close>

subsection \<open>Configuration values\<close>

text \<open>
  Leaves and containers of the configuration. A float is kept by its exact value.
  Equality of two values is Python's \<^verbatim>\<open>==\<close> wherever the script compares with a string
  or with \<^verbatim>\<open>None\<close>, which is all it does.
\<close>

datatype pyval =
    PNone
  | PBool bool
  | PInt int
  | PFloat rat
  | PStr string
  | PList "pyval list"
  | PDict "(string \<times> pyval) list"

text \<open>A \<^verbatim>\<open>dict\<close> keeps its insertion order: an association list with distinct keys.\<close>

type_synonym pydict = "(string \<times> pyval) list"

text \<open>One entry of \<^verbatim>\<open>cfg.augmentations\<close>: the script reads \<^verbatim>\<open>num_crops\<close> only.\<close>

record aug_cfg =
  num_crops :: int
  aug_other :: pydict

text \<open>
  The configuration as \<^verbatim>\<open>main\<close> reads it, one field for each path the script
  dereferences (\<^verbatim>\<open>cfg.data.format\<close> is \<open>data_format\<close>). \<open>resume_from_checkpoint\<close> is
  \<open>None\<close> once the script has deleted the key, \<open>Some None\<close> for the value \<^verbatim>\<open>None\<close>.
  \<open>group_other\<close> holds, for each group, the entries the script never reads, and
  \<open>other\<close> the remaining top-level entries (\<^verbatim>\<open>max_epochs\<close>, \<^verbatim>\<open>devices\<close>, ...).
\<close>

record config =
  name :: string
  seed :: int
  "method" :: string
  strategy :: pyval
  debug_augmentations :: bool
  resume_from_checkpoint :: "string option option"
  backbone_kwargs :: pydict
  performance_disable_channel_last :: bool
  data_dataset :: string
  data_train_path :: string
  data_val_path :: "string option"
  data_format :: string
  data_num_workers :: int
  data_no_labels :: bool
  data_fraction :: pyval
  data_num_large_crops :: int
  data_num_small_crops :: int
  data_custom_dataset_name :: string
  optimizer_batch_size :: int
  augmentations :: "aug_cfg list"
  dali_device :: string
  dali_encode_indexes_into_labels :: bool
  auto_resume_enabled :: bool
  auto_resume_max_hours :: pyval
  checkpoint_enabled :: bool
  checkpoint_dir :: string
  checkpoint_frequency :: int
  checkpoint_keep_prev :: int
  auto_umap_enabled :: bool
  auto_umap_dir :: string
  auto_umap_frequency :: int
  wandb_enabled :: bool
  wandb_project :: pyval
  wandb_entity :: pyval
  wandb_offline :: bool
  group_other :: "(string \<times> pydict) list"
  other :: pydict

text \<open>\<^verbatim>\<open>d.pop(k, None)\<close>: the value (or \<^verbatim>\<open>None\<close>) and the dictionary without the key.\<close>

definition pop :: "string \<Rightarrow> pydict \<Rightarrow> pyval \<times> pydict" where
  "pop k d = (case map_of d k of None \<Rightarrow> (PNone, d) | Some v \<Rightarrow> (v, AList.delete k d))"

text \<open>\<^verbatim>\<open>d.get(k, default)\<close>.\<close>

definition get_default :: "pydict \<Rightarrow> string \<Rightarrow> pyval \<Rightarrow> pyval" where
  "get_default d k dflt = (case map_of d k of None \<Rightarrow> dflt | Some v \<Rightarrow> v)"

text \<open>\<^verbatim>\<open>os.path.join(a, b)\<close> on POSIX, for two components.\<close>

definition path_join :: "string \<Rightarrow> string \<Rightarrow> string" where
  "path_join a b =
     (if b \<noteq> [] \<and> hd b = CHR ''/'' then b
      else if a = [] \<or> last a = CHR ''/'' then a @ b
      else a @ ''/'' @ b)"

text \<open>\<^verbatim>\<open>OmegaConf.to_container(cfg)\<close>: the configuration as plain nested dictionaries.\<close>

definition group :: "config \<Rightarrow> string \<Rightarrow> pydict \<Rightarrow> string \<times> pyval" where
  "group cfg g known =
     (g, PDict (known @ (case map_of (group_other cfg) g of None \<Rightarrow> [] | Some d \<Rightarrow> d)))"

definition opt_str :: "string option \<Rightarrow> pyval" where
  "opt_str s = (case s of None \<Rightarrow> PNone | Some p \<Rightarrow> PStr p)"

definition aug_container :: "aug_cfg \<Rightarrow> pyval" where
  "aug_container a = PDict ((''num_crops'', PInt (num_crops a)) # aug_other a)"

definition to_container :: "config \<Rightarrow> pydict" where
  "to_container cfg =
     [(''name'', PStr (name cfg)),
      (''seed'', PInt (seed cfg)),
      (''method'', PStr (method cfg)),
      (''strategy'', strategy cfg),
      (''debug_augmentations'', PBool (debug_augmentations cfg))]
     @ (case resume_from_checkpoint cfg of
          None \<Rightarrow> []
        | Some r \<Rightarrow> [(''resume_from_checkpoint'', opt_str r)])
     @ [group cfg ''backbone'' [(''kwargs'', PDict (backbone_kwargs cfg))],
        group cfg ''performance''
          [(''disable_channel_last'', PBool (performance_disable_channel_last cfg))],
        group cfg ''data''
          [(''dataset'', PStr (data_dataset cfg)),
           (''train_path'', PStr (data_train_path cfg)),
           (''val_path'', opt_str (data_val_path cfg)),
           (''format'', PStr (data_format cfg)),
           (''num_workers'', PInt (data_num_workers cfg)),
           (''no_labels'', PBool (data_no_labels cfg)),
           (''fraction'', data_fraction cfg),
           (''num_large_crops'', PInt (data_num_large_crops cfg)),
           (''num_small_crops'', PInt (data_num_small_crops cfg)),
           (''custom_dataset_name'', PStr (data_custom_dataset_name cfg))],
        group cfg ''optimizer'' [(''batch_size'', PInt (optimizer_batch_size cfg))],
        (''augmentations'', PList (map aug_container (augmentations cfg))),
        group cfg ''dali''
          [(''device'', PStr (dali_device cfg)),
           (''encode_indexes_into_labels'', PBool (dali_encode_indexes_into_labels cfg))],
        group cfg ''auto_resume''
          [(''enabled'', PBool (auto_resume_enabled cfg)),
           (''max_hours'', auto_resume_max_hours cfg)],
        group cfg ''checkpoint''
          [(''enabled'', PBool (checkpoint_enabled cfg)),
           (''dir'', PStr (checkpoint_dir cfg)),
           (''frequency'', PInt (checkpoint_frequency cfg)),
           (''keep_prev'', PInt (checkpoint_keep_prev cfg))],
        group cfg ''auto_umap''
          [(''enabled'', PBool (auto_umap_enabled cfg)),
           (''dir'', PStr (auto_umap_dir cfg)),
           (''frequency'', PInt (auto_umap_frequency cfg))],
        group cfg ''wandb''
          [(''enabled'', PBool (wandb_enabled cfg)),
           (''project'', wandb_project cfg),
           (''entity'', wandb_entity cfg),
           (''offline'', PBool (wandb_offline cfg))]]
     @ other cfg"

subsection \<open>Objects the script builds\<close>

text \<open>
  A module's state dictionary: parameter names with their tensors, a tensor kept as the
  sequence of its stored words (copying a tensor copies that sequence).
\<close>

type_synonym tensor = "nat list"
type_synonym state_dict = "(string \<times> tensor) list"

text \<open>
  A method instance owns a backbone; an instance of \<^verbatim>\<open>BaseMomentumMethod\<close> owns a
  momentum backbone as well. \<^verbatim>\<open>isinstance(model, BaseMomentumMethod)\<close> is the test for
  the second constructor.
\<close>

datatype method_instance =
    BaseMethod state_dict
  | BaseMomentumMethod state_dict state_dict

fun backbone :: "method_instance \<Rightarrow> state_dict" where
  "backbone (BaseMethod b) = b"
| "backbone (BaseMomentumMethod b m) = b"

fun momentum_backbone :: "method_instance \<Rightarrow> state_dict option" where
  "momentum_backbone (BaseMethod b) = None"
| "momentum_backbone (BaseMomentumMethod b m) = Some m"

fun set_backbone :: "method_instance \<Rightarrow> state_dict \<Rightarrow> method_instance" where
  "set_backbone (BaseMethod b) b' = BaseMethod b'"
| "set_backbone (BaseMomentumMethod b m) b' = BaseMomentumMethod b' m"

text \<open>Each external constructor is a constructor of the object it returns.\<close>

datatype val_loader =
  Prepare_data_classification string string "string option" string int int

datatype transform =
    Build_transform_pipeline string aug_cfg
  | Build_transform_pipeline_dali string aug_cfg string

datatype ncrop = NCropAugmentation transform int

datatype pipeline = FullTransformPipeline "ncrop list"

datatype dali_module =
  PretrainDALIDataModule string string pipeline int int int int bool pyval string bool

text \<open>The data module after \<^verbatim>\<open>dali_datamodule.val_dataloader = lambda: val_loader\<close>.\<close>

datatype datamodule = Datamodule dali_module "val_loader option"

datatype dataset =
    ACDCDatasetUnlabeleld_with_index string pipeline
  | Prepare_datasets string pipeline string string bool pyval

datatype train_loader = Prepare_dataloader dataset int int

datatype callback =
    Checkpointer config string int int
  | AutoUMAP string string int
  | LearningRateMonitor string
  | WeightsSaver method_instance "int list"

datatype wandb_logger =
  WandbLogger string pyval pyval bool "string option" "string option"

text \<open>
  A value of the keyword dictionary handed to \<^verbatim>\<open>Trainer\<close>: a plain configuration
  value or one of the objects the script computes.
\<close>

datatype kwarg =
    Py pyval
  | Logger wandb_logger
  | Callbacks "callback list"
  | DDPStrategy bool

type_synonym kwargs = "(string \<times> kwarg) list"

datatype fit_loop = FitLoop | WorkaroundFitLoop

record trainer =
  init_kwargs :: kwargs
  trainer_fit_loop :: fit_loop

subsection \<open>Exceptions, events and the environment\<close>

datatype assert_msg = No_message | Choose_from "string list" | Message string

datatype exn =
    AssertionError assert_msg
  | RuntimeError string
  | ConfigAttributeError string
  | NameError string
  | KeyError string
  | Raised string

text \<open>One event for each call that leaves the script, with the arguments it passes.\<close>

datatype event =
    Parse_cfg config
  | Format_name config
  | Seed_everything int
  | Register_backbone string
  | Method_init string config
  | Zoo_lookup pyval pyval
  | Load_state_dict state_dict
  | Initialize_momentum_params
  | Make_contiguous
  | To_channels_last
  | Make_val_loader val_loader
  | Make_transform transform
  | Make_ncrop ncrop
  | Make_pipeline pipeline
  | Make_datamodule dali_module
  | Make_dataset dataset
  | Make_train_loader train_loader
  | Make_auto_resumer string pyval
  | Find_checkpoint string config
  | Make_callback callback
  | Make_wandb_logger wandb_logger
  | Wandb_watch
  | Wandb_log_hyperparams pydict
  | Make_trainer kwargs
  | Patch_fit_loop
  | Fit_datamodule trainer method_instance "string option" datamodule
  | Fit_loaders trainer method_instance train_loader "val_loader option" "string option"

text \<open>
  What the script does not decide: whether an external call raises (\<open>fails\<close>), what
  the library functions it calls return, which optional imports succeeded at module load
  (\<^verbatim>\<open>_dali_avaliable\<close>, \<^verbatim>\<open>_umap_available\<close>), and the parameter names of
  \<^verbatim>\<open>Trainer.__init__\<close> as \<^verbatim>\<open>inspect.signature\<close> lists them.
\<close>

record env =
  fails :: "event \<Rightarrow> exn option"
  parse_cfg :: "config \<Rightarrow> config"
  format_name :: "config \<Rightarrow> string"
  METHODS :: "(string \<times> (config \<Rightarrow> method_instance)) list"
  get_state_dict_form_pretrained_model_zoo :: "pyval \<Rightarrow> pyval \<Rightarrow> state_dict"
  dali_avaliable :: bool
  umap_available :: bool
  expanduser :: "string \<Rightarrow> string"
  find_checkpoint :: "string \<Rightarrow> pyval \<Rightarrow> config \<Rightarrow> string option \<times> string option"
  trainer_parameters :: "string list"

subsection \<open>Running: an exception or a value, and the events on the way\<close>

text \<open>
  A run is its outcome (\<open>Inl\<close> the exception that ended it, \<open>Inr\<close> the value it
  returned) together with the events it produced, oldest first.
\<close>

type_synonym 'a run = "(exn + 'a) \<times> event list"

abbreviation result :: "'a run \<Rightarrow> exn + 'a" where
  "result m \<equiv> fst m"

abbreviation trace :: "'a run \<Rightarrow> event list" where
  "trace m \<equiv> snd m"

definition ret :: "'a \<Rightarrow> 'a run" where
  "ret x = (Inr x, [])"

definition raise :: "exn \<Rightarrow> 'a run" where
  "raise e = (Inl e, [])"

text \<open>Sequencing: an exception in the first part skips the second.\<close>

definition bind :: "'a run \<Rightarrow> ('a \<Rightarrow> 'b run) \<Rightarrow> 'b run" where
  "bind m f =
     (case m of
        (Inl e, t) \<Rightarrow> (Inl e, t)
      | (Inr x, t) \<Rightarrow> (case f x of (r, t') \<Rightarrow> (r, t @ t')))"

text \<open>An external call: it is entered (and recorded), then it returns or raises.\<close>

definition call :: "env \<Rightarrow> event \<Rightarrow> unit run" where
  "call E ev = (case fails E ev of Some e \<Rightarrow> Inl e | None \<Rightarrow> Inr (), [ev])"

text \<open>An effect of the script itself on a library object; it cannot raise.\<close>

definition effect :: "event \<Rightarrow> unit run" where
  "effect ev = (Inr (), [ev])"

text \<open>\<^verbatim>\<open>assert b, msg\<close>.\<close>

definition assert :: "bool \<Rightarrow> assert_msg \<Rightarrow> unit run" where
  "assert b msg = (if b then ret () else raise (AssertionError msg))"

text \<open>\<^verbatim>\<open>try: body except: pass\<close>: a bare \<^verbatim>\<open>except\<close> catches every exception.\<close>

definition try_except_pass :: "'a run \<Rightarrow> 'a option run" where
  "try_except_pass m =
     (case m of (Inl e, t) \<Rightarrow> (Inr None, t) | (Inr x, t) \<Rightarrow> (Inr (Some x), t))"

subsection \<open>Library functions the script relies on\<close>

text \<open>
  Modelled from the spec: \<^verbatim>\<open>load_state_dict\<close> of the backbone module is not in the
  source. The spec has it load the supplied weight set into the backbone "matching by
  key", a mismatch surfacing as a fatal state-dict key-mismatch error. The first argument
  is the module's current state, the second the weights.
\<close>

definition load_state_dict :: "state_dict \<Rightarrow> state_dict \<Rightarrow> exn + state_dict" where
  "load_state_dict current sd =
     (if set (map fst sd) = set (map fst current)
      then Inr (map (\<lambda>(k, v). (k, case map_of sd k of Some w \<Rightarrow> w | None \<Rightarrow> v)) current)
      else Inl (RuntimeError ''Error(s) in loading state_dict''))"

text \<open>
  Modelled from the spec: \<^verbatim>\<open>solo.utils.momentum.initialize_momentum_params\<close> is not
  in the source. The spec has it "re-seed" the parameters of the momentum backbone "from
  the just-loaded backbone": the parameters of the first module are copied over those of
  the second, one after the other in the order both modules list them.
\<close>

fun initialize_momentum_params :: "state_dict \<Rightarrow> state_dict \<Rightarrow> state_dict" where
  "initialize_momentum_params (po # online) ((k, pm) # momentum) =
     (k, snd po) # initialize_momentum_params online momentum"
| "initialize_momentum_params online momentum = momentum"

text \<open>\<^verbatim>\<open>module.parameters()\<close>: the tensors, in order.\<close>

definition parameters :: "state_dict \<Rightarrow> tensor list" where
  "parameters m = map snd m"

subsection \<open>\<^verbatim>\<open>main\<close>, block by block\<close>

text \<open>Lines 87-88: the number of large crops.\<close>

definition crop_count_check :: "config \<Rightarrow> unit run" where
  "crop_count_check cfg =
     (if data_num_large_crops cfg \<noteq> 2
      then assert (method cfg \<in> set [''wmse'', ''mae'']) No_message
      else ret ())"

text \<open>Lines 73-91: parsing, the name template, the seed, the two checks, the timm hook.\<close>

definition startup_checks :: "env \<Rightarrow> config \<Rightarrow> config run" where
  "startup_checks E cfg0 =
     bind (call E (Parse_cfg cfg0)) (\<lambda>_.
     bind (call E (Format_name (parse_cfg E cfg0))) (\<lambda>_.
     bind (ret ((parse_cfg E cfg0)\<lparr>name := format_name E (parse_cfg E cfg0)\<rparr>)) (\<lambda>cfg.
     bind (call E (Seed_everything (seed cfg))) (\<lambda>_.
     bind (assert (method cfg \<in> set (map fst (METHODS E)))
             (Choose_from (map fst (METHODS E)))) (\<lambda>_.
     bind (crop_count_check cfg) (\<lambda>_.
     bind (effect (Register_backbone ''timm_universal'')) (\<lambda>_.
     ret cfg)))))))"

text \<open>
  Lines 94-97: \<^verbatim>\<open>pretrained_weights\<close> is taken out of the backbone's keyword
  arguments; for \<^verbatim>\<open>"imagenet"\<close> the flag \<^verbatim>\<open>pretrained\<close> is set unless the key is there.
\<close>

definition pretrained_config :: "config \<Rightarrow> pyval \<times> config" where
  "pretrained_config cfg =
     (case pop ''pretrained_weights'' (backbone_kwargs cfg) of (pretrain_cfg, kw) \<Rightarrow>
        (pretrain_cfg,
         cfg\<lparr>backbone_kwargs :=
               (if pretrain_cfg = PStr ''imagenet'' \<and> ''pretrained'' \<notin> set (map fst kw)
                then AList.update ''pretrained'' (PBool True) kw
                else kw)\<rparr>))"

text \<open>Line 100: \<^verbatim>\<open>METHODS[cfg.method](cfg)\<close>.\<close>

definition instantiate :: "env \<Rightarrow> config \<Rightarrow> method_instance run" where
  "instantiate E cfg =
     (case map_of (METHODS E) (method cfg) of
        None \<Rightarrow> raise (KeyError (method cfg))
      | Some method_class \<Rightarrow>
          bind (call E (Method_init (method cfg) cfg)) (\<lambda>_. ret (method_class cfg)))"

text \<open>Lines 105-113: weights from the zoo, into the backbone, then into its shadow.\<close>

definition load_pretrained :: "env \<Rightarrow> config \<Rightarrow> pyval \<Rightarrow> method_instance \<Rightarrow> method_instance run" where
  "load_pretrained E cfg pretrain_cfg model =
     (if pretrain_cfg \<notin> set [PNone, PStr ''None'', PStr ''imagenet''] then
        bind (call E (Zoo_lookup pretrain_cfg
                        (get_default (backbone_kwargs cfg) ''in_chans'' (PInt 3)))) (\<lambda>_.
        bind (ret (get_state_dict_form_pretrained_model_zoo E pretrain_cfg
                        (get_default (backbone_kwargs cfg) ''in_chans'' (PInt 3)))) (\<lambda>pretrained_weights.
        bind (effect (Load_state_dict pretrained_weights)) (\<lambda>_.
        case load_state_dict (backbone model) pretrained_weights of
          Inl e \<Rightarrow> raise e
        | Inr loaded \<Rightarrow>
            (case momentum_backbone (set_backbone model loaded) of
               Some m \<Rightarrow>
                 bind (call E Initialize_momentum_params) (\<lambda>_.
                 ret (BaseMomentumMethod loaded (initialize_momentum_params loaded m)))
             | None \<Rightarrow> ret (set_backbone model loaded)))))
      else ret model)"

text \<open>Lines 93-118: the method instance and its weights.\<close>

definition model_assembly :: "env \<Rightarrow> config \<Rightarrow> (config \<times> method_instance) run" where
  "model_assembly E cfg0 =
     (case pretrained_config cfg0 of (pretrain_cfg, cfg1) \<Rightarrow>
        bind (instantiate E cfg1) (\<lambda>model.
        bind (ret (cfg1\<lparr>backbone_kwargs :=
                     AList.update ''pretrained_weights'' pretrain_cfg (backbone_kwargs cfg1)\<rparr>)) (\<lambda>cfg.
        bind (load_pretrained E cfg pretrain_cfg model) (\<lambda>model.
        bind (call E Make_contiguous) (\<lambda>_.
        bind (if \<not> performance_disable_channel_last cfg
              then call E To_channels_last else ret ()) (\<lambda>_.
        ret (cfg, model)))))))"

text \<open>Lines 121-138: the validation loader, when there is one.\<close>

definition validation_loader :: "env \<Rightarrow> config \<Rightarrow> val_loader option run" where
  "validation_loader E cfg =
     (if data_dataset cfg = ''custom'' \<and> (data_no_labels cfg \<or> data_val_path cfg = None)
      then ret None
      else if data_dataset cfg \<in> set [''imagenet100'', ''imagenet''] \<and> data_val_path cfg = None
      then ret None
      else
        bind (ret (Prepare_data_classification (data_dataset cfg) (data_train_path cfg)
                     (data_val_path cfg)
                     (if data_format cfg = ''dali'' then ''image_folder'' else data_format cfg)
                     (optimizer_batch_size cfg) (data_num_workers cfg))) (\<lambda>val_loader.
        bind (call E (Make_val_loader val_loader)) (\<lambda>_.
        ret (Some val_loader))))"

text \<open>Lines 145-154 and 172-178: the loops over \<^verbatim>\<open>cfg.augmentations\<close>.\<close>

fun pipelines_dali :: "env \<Rightarrow> config \<Rightarrow> aug_cfg list \<Rightarrow> ncrop list run" where
  "pipelines_dali E cfg [] = ret []"
| "pipelines_dali E cfg (aug # augs) =
     bind (ret (Build_transform_pipeline_dali (data_dataset cfg) aug (dali_device cfg))) (\<lambda>tr.
     bind (call E (Make_transform tr)) (\<lambda>_.
     bind (call E (Make_ncrop (NCropAugmentation tr (num_crops aug)))) (\<lambda>_.
     bind (pipelines_dali E cfg augs) (\<lambda>rest.
     ret (NCropAugmentation tr (num_crops aug) # rest)))))"

fun pipelines_standard :: "env \<Rightarrow> config \<Rightarrow> aug_cfg list \<Rightarrow> ncrop list run" where
  "pipelines_standard E cfg [] = ret []"
| "pipelines_standard E cfg (aug # augs) =
     bind (ret (Build_transform_pipeline (data_dataset cfg) aug)) (\<lambda>tr.
     bind (call E (Make_transform tr)) (\<lambda>_.
     bind (call E (Make_ncrop (NCropAugmentation tr (num_crops aug)))) (\<lambda>_.
     bind (pipelines_standard E cfg augs) (\<lambda>rest.
     ret (NCropAugmentation tr (num_crops aug) # rest)))))"

definition dali_message :: assert_msg where
  "dali_message =
     Message ''Dali is not currently avaiable, please install it first with pip3 install .[dali].''"

text \<open>
  Lines 141-199: the training data. The result holds the two local variables
  \<^verbatim>\<open>dali_datamodule\<close> and \<^verbatim>\<open>train_loader\<close>, of which one is bound.
\<close>

definition pretrain_data ::
  "env \<Rightarrow> config \<Rightarrow> val_loader option \<Rightarrow> (datamodule option \<times> train_loader option) run" where
  "pretrain_data E cfg val_loader =
     (if data_format cfg = ''dali'' then
        bind (assert (dali_avaliable E) dali_message) (\<lambda>_.
        bind (pipelines_dali E cfg (augmentations cfg)) (\<lambda>pipelines.
        bind (call E (Make_pipeline (FullTransformPipeline pipelines))) (\<lambda>_.
        bind (ret (PretrainDALIDataModule (data_dataset cfg) (data_train_path cfg)
                     (FullTransformPipeline pipelines)
                     (data_num_large_crops cfg) (data_num_small_crops cfg)
                     (data_num_workers cfg) (optimizer_batch_size cfg)
                     (data_no_labels cfg) (data_fraction cfg) (dali_device cfg)
                     (dali_encode_indexes_into_labels cfg))) (\<lambda>dm.
        bind (call E (Make_datamodule dm)) (\<lambda>_.
        ret (Some (Datamodule dm val_loader), None))))))
      else
        bind (pipelines_standard E cfg (augmentations cfg)) (\<lambda>pipelines.
        bind (call E (Make_pipeline (FullTransformPipeline pipelines))) (\<lambda>_.
        bind (ret (if data_custom_dataset_name cfg = ''acdc''
                   then ACDCDatasetUnlabeleld_with_index (expanduser E (data_train_path cfg))
                          (FullTransformPipeline pipelines)
                   else Prepare_datasets (data_dataset cfg) (FullTransformPipeline pipelines)
                          (data_train_path cfg) (data_format cfg) (data_no_labels cfg)
                          (data_fraction cfg))) (\<lambda>train_dataset.
        bind (call E (Make_dataset train_dataset)) (\<lambda>_.
        bind (ret (Prepare_dataloader train_dataset (optimizer_batch_size cfg)
                     (data_num_workers cfg))) (\<lambda>train_loader.
        bind (call E (Make_train_loader train_loader)) (\<lambda>_.
        ret (None, Some train_loader))))))))"

text \<open>
  Lines 203-218: the checkpoint to resume from. The result is the configuration (the key
  \<^verbatim>\<open>resume_from_checkpoint\<close> deleted on the second branch), \<^verbatim>\<open>ckpt_path\<close> and
  \<^verbatim>\<open>wandb_run_id\<close>. Reading a key that is not there raises.
\<close>

definition resume :: "env \<Rightarrow> config \<Rightarrow> (config \<times> string option \<times> string option) run" where
  "resume E cfg =
     (case resume_from_checkpoint cfg of
        None \<Rightarrow> raise (ConfigAttributeError ''resume_from_checkpoint'')
      | Some explicit \<Rightarrow>
          if auto_resume_enabled cfg \<and> explicit = None then
            bind (call E (Make_auto_resumer (path_join (checkpoint_dir cfg) (method cfg))
                            (auto_resume_max_hours cfg))) (\<lambda>_.
            bind (call E (Find_checkpoint (path_join (checkpoint_dir cfg) (method cfg)) cfg)) (\<lambda>_.
            case find_checkpoint E (path_join (checkpoint_dir cfg) (method cfg))
                   (auto_resume_max_hours cfg) cfg of
              (found, wandb_run_id) \<Rightarrow> ret (cfg, found, wandb_run_id)))
          else if explicit \<noteq> None then
            ret (cfg\<lparr>resume_from_checkpoint := None\<rparr>, explicit, None)
          else ret (cfg, None, None))"

definition umap_message :: assert_msg where
  "umap_message = Message ''UMAP is not currently avaiable, please install it first with [umap].''"

definition milestones :: "int list" where
  "milestones = [5, 10, 50, 100, 200, 300, 400]"

text \<open>
  Lines 220-262: the callbacks and the logger. \<^verbatim>\<open>resume="allow" if wandb_run_id else None\<close>
  tests the truth value: an empty identifier counts as none.
\<close>

definition assemble_callbacks ::
  "env \<Rightarrow> config \<Rightarrow> method_instance \<Rightarrow> string option \<Rightarrow> (callback list \<times> wandb_logger option) run" where
  "assemble_callbacks E cfg model wandb_run_id =
     bind (if checkpoint_enabled cfg then
             bind (ret (Checkpointer cfg
                          (path_join (checkpoint_dir cfg)
                             (method cfg @ ''_'' @ data_custom_dataset_name cfg))
                          (checkpoint_frequency cfg) (checkpoint_keep_prev cfg))) (\<lambda>ckpt.
             bind (call E (Make_callback ckpt)) (\<lambda>_.
             ret [ckpt]))
           else ret []) (\<lambda>callbacks.
     bind (if auto_umap_enabled cfg then
             bind (assert (umap_available E) umap_message) (\<lambda>_.
             bind (ret (AutoUMAP (name cfg) (path_join (auto_umap_dir cfg) (method cfg))
                          (auto_umap_frequency cfg))) (\<lambda>auto_umap.
             bind (call E (Make_callback auto_umap)) (\<lambda>_.
             ret (callbacks @ [auto_umap]))))
           else ret callbacks) (\<lambda>callbacks.
     bind (if wandb_enabled cfg then
             bind (ret (WandbLogger (name cfg) (wandb_project cfg) (wandb_entity cfg)
                          (wandb_offline cfg)
                          (if wandb_run_id \<noteq> None \<and> wandb_run_id \<noteq> Some []
                           then Some ''allow'' else None)
                          wandb_run_id)) (\<lambda>wandb_logger.
             bind (call E (Make_wandb_logger wandb_logger)) (\<lambda>_.
             bind (call E Wandb_watch) (\<lambda>_.
             bind (call E (Wandb_log_hyperparams (to_container cfg))) (\<lambda>_.
             bind (call E (Make_callback (LearningRateMonitor ''step''))) (\<lambda>_.
             ret (callbacks @ [LearningRateMonitor ''step''], Some wandb_logger))))))
           else ret (callbacks, None)) (\<lambda>(callbacks, wandb_logger).
     bind (if checkpoint_enabled cfg then
             bind (call E (Make_callback (WeightsSaver model milestones))) (\<lambda>_.
             ret (callbacks @ [WeightsSaver model milestones]))
           else ret callbacks) (\<lambda>callbacks.
     ret (callbacks, wandb_logger)))))"

text \<open>
  Line 267: \<^verbatim>\<open>{name: trainer_kwargs[name] for name in valid_kwargs if name in trainer_kwargs}\<close>.
\<close>

definition select_valid :: "string list \<Rightarrow> pydict \<Rightarrow> kwargs" where
  "select_valid valid_kwargs d =
     fold (\<lambda>name acc. case map_of d name of
                         Some v \<Rightarrow> AList.update name (Py v) acc
                       | None \<Rightarrow> acc) valid_kwargs []"

text \<open>\<^verbatim>\<open>d.update(entries)\<close>.\<close>

definition dict_update :: "kwargs \<Rightarrow> kwargs \<Rightarrow> kwargs" where
  "dict_update d entries = fold (\<lambda>(k, v) acc. AList.update k v acc) entries d"

text \<open>Lines 270-275: the four entries the script sets itself.\<close>

definition overrides :: "config \<Rightarrow> callback list \<Rightarrow> wandb_logger \<Rightarrow> kwargs" where
  "overrides cfg callbacks wandb_logger =
     [(''logger'', if wandb_enabled cfg then Logger wandb_logger else Py PNone),
      (''callbacks'', Callbacks callbacks),
      (''enable_checkpointing'', Py (PBool False)),
      (''strategy'', if strategy cfg = PStr ''ddp'' then DDPStrategy False
                     else Py (strategy cfg))]"

text \<open>
  Lines 264-278: the trainer. The local \<^verbatim>\<open>wandb_logger\<close> is bound only when logging is
  enabled; it is read only then.
\<close>

definition make_trainer ::
  "env \<Rightarrow> config \<Rightarrow> callback list \<Rightarrow> wandb_logger option \<Rightarrow> trainer run" where
  "make_trainer E cfg callbacks wandb_logger =
     (case (if wandb_enabled cfg then wandb_logger
            else Some (WandbLogger [] PNone PNone False None None)) of
        None \<Rightarrow> raise (NameError ''wandb_logger'')
      | Some w \<Rightarrow>
          bind (ret (dict_update (select_valid (trainer_parameters E) (to_container cfg))
                       (overrides cfg callbacks w))) (\<lambda>trainer_kwargs.
          bind (call E (Make_trainer trainer_kwargs)) (\<lambda>_.
          ret \<lparr>init_kwargs = trainer_kwargs, trainer_fit_loop = FitLoop\<rparr>)))"

text \<open>
  Lines 283-295: the replacement of the fit loop, inside \<^verbatim>\<open>try: ... except: pass\<close>.
  The assignment to \<^verbatim>\<open>trainer.fit_loop\<close> is the last statement of the block.
\<close>

definition fit_loop_workaround :: "env \<Rightarrow> trainer \<Rightarrow> trainer run" where
  "fit_loop_workaround E trainer =
     bind (try_except_pass (call E Patch_fit_loop)) (\<lambda>patched.
     ret (case patched of
            None \<Rightarrow> trainer
          | Some _ \<Rightarrow> trainer\<lparr>trainer_fit_loop := WorkaroundFitLoop\<rparr>))"

text \<open>Lines 297-300: the training run.\<close>

definition dispatch ::
  "env \<Rightarrow> config \<Rightarrow> trainer \<Rightarrow> method_instance \<Rightarrow> datamodule option \<Rightarrow> train_loader option
     \<Rightarrow> val_loader option \<Rightarrow> string option \<Rightarrow> unit run" where
  "dispatch E cfg trainer model dali_datamodule train_loader val_loader ckpt_path =
     (if data_format cfg = ''dali'' then
        (case dali_datamodule of
           None \<Rightarrow> raise (NameError ''dali_datamodule'')
         | Some dm \<Rightarrow> call E (Fit_datamodule trainer model ckpt_path dm))
      else
        (case train_loader of
           None \<Rightarrow> raise (NameError ''train_loader'')
         | Some loader \<Rightarrow> call E (Fit_loaders trainer model loader val_loader ckpt_path)))"

text \<open>\<^verbatim>\<open>main\<close>: the blocks in the order of the source.\<close>

definition main :: "env \<Rightarrow> config \<Rightarrow> unit run" where
  "main E cfg0 =
     bind (startup_checks E cfg0) (\<lambda>cfg.
     bind (model_assembly E cfg) (\<lambda>(cfg, model).
     bind (validation_loader E cfg) (\<lambda>val_loader.
     bind (pretrain_data E cfg val_loader) (\<lambda>(dali_datamodule, train_loader).
     bind (resume E cfg) (\<lambda>(cfg, ckpt_path, wandb_run_id).
     bind (assemble_callbacks E cfg model wandb_run_id) (\<lambda>(callbacks, wandb_logger).
     bind (make_trainer E cfg callbacks wandb_logger) (\<lambda>trainer.
     bind (fit_loop_workaround E trainer) (\<lambda>trainer.
     dispatch E cfg trainer model dali_datamodule train_loader val_loader ckpt_path))))))))"

subsection \<open>Reading a trace\<close>

text \<open>Events that construct the model or give it weights.\<close>

fun builds_model :: "event \<Rightarrow> bool" where
  "builds_model (Method_init m c) = True"
| "builds_model (Zoo_lookup w n) = True"
| "builds_model (Load_state_dict w) = True"
| "builds_model Initialize_momentum_params = True"
| "builds_model ev = False"

text \<open>Events that build transforms, datasets, loaders or data modules.\<close>

fun loads_data :: "event \<Rightarrow> bool" where
  "loads_data (Make_val_loader v) = True"
| "loads_data (Make_transform tr) = True"
| "loads_data (Make_ncrop n) = True"
| "loads_data (Make_pipeline p) = True"
| "loads_data (Make_datamodule d) = True"
| "loads_data (Make_dataset d) = True"
| "loads_data (Make_train_loader l) = True"
| "loads_data ev = False"

text \<open>The lookup in the weight zoo and the load into the backbone.\<close>

fun is_zoo_load :: "event \<Rightarrow> bool" where
  "is_zoo_load (Zoo_lookup w n) = True"
| "is_zoo_load (Load_state_dict w) = True"
| "is_zoo_load ev = False"

text \<open>The block of \<^verbatim>\<open>main\<close> an event comes from.\<close>

datatype block =
  Startup | Model | Validation | Data | Resume | Hooks | Trainer | Patch | Fit

fun origin :: "event \<Rightarrow> block" where
  "origin (Parse_cfg c) = Startup"
| "origin (Format_name c) = Startup"
| "origin (Seed_everything s) = Startup"
| "origin (Register_backbone b) = Startup"
| "origin (Method_init m c) = Model"
| "origin (Zoo_lookup w n) = Model"
| "origin (Load_state_dict w) = Model"
| "origin Initialize_momentum_params = Model"
| "origin Make_contiguous = Model"
| "origin To_channels_last = Model"
| "origin (Make_val_loader v) = Validation"
| "origin (Make_transform tr) = Data"
| "origin (Make_ncrop n) = Data"
| "origin (Make_pipeline p) = Data"
| "origin (Make_datamodule d) = Data"
| "origin (Make_dataset d) = Data"
| "origin (Make_train_loader l) = Data"
| "origin (Make_auto_resumer d h) = Resume"
| "origin (Find_checkpoint d c) = Resume"
| "origin (Make_callback c) = Hooks"
| "origin (Make_wandb_logger w) = Hooks"
| "origin Wandb_watch = Hooks"
| "origin (Wandb_log_hyperparams d) = Hooks"
| "origin (Make_trainer kw) = Trainer"
| "origin Patch_fit_loop = Patch"
| "origin (Fit_datamodule tr m ck dm) = Fit"
| "origin (Fit_loaders tr m l v ck) = Fit"

text \<open>The auto-resume scan: building the resolver and asking it for a checkpoint.\<close>

fun is_scan :: "event \<Rightarrow> bool" where
  "is_scan (Make_auto_resumer d h) = True"
| "is_scan (Find_checkpoint d c) = True"
| "is_scan ev = False"

text \<open>The checkpoint path a training run is started with, for the two ways to start it.\<close>

fun fit_ckpt_path :: "event \<Rightarrow> string option option" where
  "fit_ckpt_path (Fit_datamodule tr m ck dm) = Some ck"
| "fit_ckpt_path (Fit_loaders tr m l v ck) = Some ck"
| "fit_ckpt_path ev = None"

text \<open>The standard (non-DALI) way to the training data, and a run started on its loaders.\<close>

fun standard_backend :: "event \<Rightarrow> bool" where
  "standard_backend (Make_transform (Build_transform_pipeline d a)) = True"
| "standard_backend (Make_dataset d) = True"
| "standard_backend (Make_train_loader l) = True"
| "standard_backend (Fit_loaders tr m l v ck) = True"
| "standard_backend ev = False"

text \<open>The directories the resolver is asked to scan, and those checkpoints are written to.\<close>

fun scanned_dirs :: "event list \<Rightarrow> string list" where
  "scanned_dirs [] = []"
| "scanned_dirs (Make_auto_resumer d h # evs) = d # scanned_dirs evs"
| "scanned_dirs (ev # evs) = scanned_dirs evs"

fun checkpoint_dirs :: "event list \<Rightarrow> string list" where
  "checkpoint_dirs [] = []"
| "checkpoint_dirs (Make_callback (Checkpointer c d f k) # evs) = d # checkpoint_dirs evs"
| "checkpoint_dirs (ev # evs) = checkpoint_dirs evs"

text \<open>A path cut at its slashes, and whether a path lies in the tree below a directory.\<close>

fun split_on :: "char \<Rightarrow> string \<Rightarrow> string list" where
  "split_on c [] = [[]]"
| "split_on c (x # xs) =
     (if x = c then [] # split_on c xs
      else (case split_on c xs of [] \<Rightarrow> [[x]] | w # ws \<Rightarrow> (x # w) # ws))"

definition components :: "string \<Rightarrow> string list" where
  "components p = filter (\<lambda>w. w \<noteq> []) (split_on CHR ''/'' p)"

fun starts_with :: "'a list \<Rightarrow> 'a list \<Rightarrow> bool" where
  "starts_with [] ys = True"
| "starts_with (x # xs) [] = False"
| "starts_with (x # xs) (y # ys) = (x = y \<and> starts_with xs ys)"

definition within_tree :: "string \<Rightarrow> string \<Rightarrow> bool" where
  "within_tree base p = starts_with (components base) (components p)"

subsection \<open>A configuration and an environment to run on\<close>

definition byol_acdc :: config where
  "byol_acdc = \<lparr>name = ''byol-acdc'', seed = 5, method = ''byol'', strategy = PStr ''ddp'',
     debug_augmentations = False, resume_from_checkpoint = Some None,
     backbone_kwargs = [(''pretrained_weights'', PStr ''imagenet'')],
     performance_disable_channel_last = False,
     data_dataset = ''custom'', data_train_path = ''~/data/acdc'', data_val_path = None,
     data_format = ''image_folder'', data_num_workers = 4, data_no_labels = True,
     data_fraction = PFloat (-1), data_num_large_crops = 2, data_num_small_crops = 0,
     data_custom_dataset_name = ''acdc'', optimizer_batch_size = 64,
     augmentations = [\<lparr>num_crops = 2, aug_other = []\<rparr>],
     dali_device = ''gpu'', dali_encode_indexes_into_labels = False,
     auto_resume_enabled = True, auto_resume_max_hours = PInt 36,
     checkpoint_enabled = True, checkpoint_dir = ''trained_models'',
     checkpoint_frequency = 1, checkpoint_keep_prev = 1,
     auto_umap_enabled = False, auto_umap_dir = ''auto_umap'', auto_umap_frequency = 1,
     wandb_enabled = False, wandb_project = PNone, wandb_entity = PNone, wandb_offline = False,
     group_other = [], other = [(''max_epochs'', PInt 400), (''logger'', PStr ''csv'')]\<rparr>"

text \<open>
  No call raises, parsing leaves the configuration alone, two methods are registered, no
  optional dependency is installed, no earlier checkpoint is found.
\<close>

definition plain_env :: env where
  "plain_env = \<lparr>fails = (\<lambda>_. None), parse_cfg = (\<lambda>c. c), format_name = name,
     METHODS = [(''byol'', (\<lambda>_. BaseMomentumMethod [(''w'', [1])] [(''w'', [2])])),
                (''mae'', (\<lambda>_. BaseMethod [(''w'', [1])]))],
     get_state_dict_form_pretrained_model_zoo = (\<lambda>_ _. [(''w'', [7])]),
     dali_avaliable = False, umap_available = False, expanduser = (\<lambda>p. p),
     find_checkpoint = (\<lambda>_ _ _. (None, None)),
     trainer_parameters = [''self'', ''logger'', ''callbacks'', ''enable_checkpointing'',
                           ''strategy'', ''max_epochs'']\<rparr>"

section \<open>Properties\<close>

subsection \<open>Outcome and trace of the building blocks\<close>

lemma result_ret [simp]: "result (ret x) = Inr x"
  by (simp add: ret_def)

lemma trace_ret [simp]: "trace (ret x) = []"
  by (simp add: ret_def)

lemma result_raise [simp]: "result (raise e) = Inl e"
  by (simp add: raise_def)

lemma trace_raise [simp]: "trace (raise e) = []"
  by (simp add: raise_def)

lemma result_bind:
  "result (bind m f) = (case result m of Inl e \<Rightarrow> Inl e | Inr x \<Rightarrow> result (f x))"
  by (simp add: bind_def split: prod.splits sum.splits)

lemma trace_bind:
  "trace (bind m f) = (case result m of Inl e \<Rightarrow> trace m | Inr x \<Rightarrow> trace m @ trace (f x))"
  by (simp add: bind_def split: prod.splits sum.splits)

lemma result_call:
  "result (call E ev) = (case fails E ev of Some e \<Rightarrow> Inl e | None \<Rightarrow> Inr ())"
  by (simp add: call_def)

lemma trace_call [simp]: "trace (call E ev) = [ev]"
  by (simp add: call_def)

lemma result_effect [simp]: "result (effect ev) = Inr ()"
  by (simp add: effect_def)

lemma trace_effect [simp]: "trace (effect ev) = [ev]"
  by (simp add: effect_def)

lemma result_assert:
  "result (assert b msg) = (if b then Inr () else Inl (AssertionError msg))"
  by (simp add: assert_def)

lemma trace_assert [simp]: "trace (assert b msg) = []"
  by (simp add: assert_def)

lemmas run_simps = result_bind trace_bind result_call result_assert

text \<open>Every event of a sequence satisfies what the events of its two parts satisfy.\<close>

lemma trace_bind_all:
  assumes "\<forall>ev \<in> set (trace m). P ev"
    and "\<And>x. result m = Inr x \<Longrightarrow> \<forall>ev \<in> set (trace (f x)). P ev"
  shows "\<forall>ev \<in> set (trace (bind m f)). P ev"
  using assms by (auto simp: trace_bind split: sum.splits)

text \<open>A sequence whose first part raises, raises the same.\<close>

lemma result_bind_Inl: "result m = Inl e \<Longrightarrow> result (bind m f) = Inl e"
  by (simp add: result_bind)

lemma trace_bind_Inl: "result m = Inl e \<Longrightarrow> trace (bind m f) = trace m"
  by (simp add: trace_bind)

subsection \<open>Failing at startup\<close>

lemma startup_unknown_method:
  assumes "method (parse_cfg E cfg) \<notin> set (map fst (METHODS E))"
  shows "\<exists>e. result (startup_checks E cfg) = Inl e"
    and "\<forall>ev \<in> set (trace (startup_checks E cfg)). \<not> builds_model ev \<and> \<not> loads_data ev"
    and "fails E (Parse_cfg cfg) = None \<Longrightarrow> fails E (Format_name (parse_cfg E cfg)) = None \<Longrightarrow>
         fails E (Seed_everything (seed (parse_cfg E cfg))) = None \<Longrightarrow>
         result (startup_checks E cfg) = Inl (AssertionError (Choose_from (map fst (METHODS E))))"
  using assms
  by (auto simp: startup_checks_def run_simps split: option.splits)

text \<open>
  C5. When the method named by the (parsed) configuration is not a key of the registry,
  \<^verbatim>\<open>main\<close> ends with an exception, and nothing it did until then constructs a model,
  fetches weights or builds a transform, dataset, loader or data module. Unless parsing,
  the name template or seeding raised first, the exception is the assertion of line 85
  with its list of registered names.
\<close>

theorem unknown_method_fails_first:
  assumes "method (parse_cfg E cfg) \<notin> set (map fst (METHODS E))"
  shows "(\<exists>e. result (main E cfg) = Inl e)
       \<and> (\<forall>ev \<in> set (trace (main E cfg)). \<not> builds_model ev \<and> \<not> loads_data ev)
       \<and> (fails E (Parse_cfg cfg) = None \<and> fails E (Format_name (parse_cfg E cfg)) = None \<and>
          fails E (Seed_everything (seed (parse_cfg E cfg))) = None \<longrightarrow>
          result (main E cfg) = Inl (AssertionError (Choose_from (map fst (METHODS E)))))"
proof -
  from startup_unknown_method(1)[OF assms]
  obtain e where e: "result (startup_checks E cfg) = Inl e" ..
  have r: "result (main E cfg) = Inl e"
    unfolding main_def by (rule result_bind_Inl[OF e])
  have t: "trace (main E cfg) = trace (startup_checks E cfg)"
    unfolding main_def by (rule trace_bind_Inl[OF e])
  show ?thesis
    using r t e startup_unknown_method(2,3)[OF assms] by auto
qed

theorem unknown_method_fails_first_witness:
  "method (parse_cfg plain_env (byol_acdc\<lparr>method := ''simclr''\<rparr>))
     \<notin> set (map fst (METHODS plain_env))
   \<and> result (main plain_env (byol_acdc\<lparr>method := ''simclr''\<rparr>))
       = Inl (AssertionError (Choose_from [''byol'', ''mae'']))
   \<and> \<not> (\<exists>ev \<in> set (trace (main plain_env (byol_acdc\<lparr>method := ''simclr''\<rparr>))).
           builds_model ev \<or> loads_data ev)"
proof -
  let ?c = "byol_acdc\<lparr>method := ''simclr''\<rparr>"
  have h: "method (parse_cfg plain_env ?c) \<notin> set (map fst (METHODS plain_env))"
    by (simp add: plain_env_def byol_acdc_def)
  note t = unknown_method_fails_first[OF h]
  have e: "\<not> (\<exists>ev \<in> set (trace (main plain_env ?c)). builds_model ev \<or> loads_data ev)"
    using t[THEN conjunct2, THEN conjunct1] by blast
  have "result (main plain_env ?c) = Inl (AssertionError (Choose_from (map fst (METHODS plain_env))))"
    using t[THEN conjunct2, THEN conjunct2] by (simp add: plain_env_def)
  then show ?thesis
    using h e by (simp add: plain_env_def)
qed

text \<open>
  C6. With a number of large crops other than 2 and a method that is neither
  \<^verbatim>\<open>"wmse"\<close> nor \<^verbatim>\<open>"mae"\<close>, \<^verbatim>\<open>main\<close> ends with an exception: the check of
  lines 87-88 raises an assertion error without a message, and unless parsing, the name
  template or seeding raised before it, \<^verbatim>\<open>main\<close> ends with an assertion error (that
  one, or the one of line 85 when the method is not registered either). For the two
  methods of the allow-list the check passes whatever the number of large crops.
\<close>

theorem crop_count_gate:
  "(data_num_large_crops (parse_cfg E cfg) \<noteq> 2
      \<and> method (parse_cfg E cfg) \<notin> set [''wmse'', ''mae'']
      \<longrightarrow> (\<exists>e. result (main E cfg) = Inl e)
        \<and> (fails E (Parse_cfg cfg) = None \<and> fails E (Format_name (parse_cfg E cfg)) = None \<and>
           fails E (Seed_everything (seed (parse_cfg E cfg))) = None
           \<longrightarrow> (\<exists>msg. result (main E cfg) = Inl (AssertionError msg)))
        \<and> crop_count_check (parse_cfg E cfg) = raise (AssertionError No_message))
   \<and> (method c \<in> set [''wmse'', ''mae''] \<longrightarrow> crop_count_check c = ret ())"
proof -
  have "\<exists>e. result (startup_checks E cfg) = Inl e
        \<and> (fails E (Parse_cfg cfg) = None \<and> fails E (Format_name (parse_cfg E cfg)) = None \<and>
           fails E (Seed_everything (seed (parse_cfg E cfg))) = None
           \<longrightarrow> (\<exists>msg. e = AssertionError msg))"
    if "data_num_large_crops (parse_cfg E cfg) \<noteq> 2"
       "method (parse_cfg E cfg) \<notin> set [''wmse'', ''mae'']"
    using that
    by (auto simp: startup_checks_def crop_count_check_def run_simps split: option.splits)
  moreover have "result (main E cfg) = Inl e" if "result (startup_checks E cfg) = Inl e" for e
    unfolding main_def by (rule result_bind_Inl[OF that])
  ultimately show ?thesis
    by (auto simp: crop_count_check_def assert_def)
qed

theorem crop_count_gate_witness:
  "(data_num_large_crops (parse_cfg plain_env (byol_acdc\<lparr>data_num_large_crops := 3\<rparr>)) \<noteq> 2
    \<and> method (parse_cfg plain_env (byol_acdc\<lparr>data_num_large_crops := 3\<rparr>))
        \<notin> set [''wmse'', ''mae''])
   \<and> (\<exists>msg. result (main plain_env (byol_acdc\<lparr>data_num_large_crops := 3\<rparr>))
              = Inl (AssertionError msg))
   \<and> method (byol_acdc\<lparr>method := ''mae'', data_num_large_crops := 7\<rparr>) \<in> set [''wmse'', ''mae'']
   \<and> crop_count_check (byol_acdc\<lparr>method := ''mae'', data_num_large_crops := 7\<rparr>) = ret ()"
  using crop_count_gate[of plain_env "byol_acdc\<lparr>data_num_large_crops := 3\<rparr>"
                           "byol_acdc\<lparr>method := ''mae'', data_num_large_crops := 7\<rparr>"]
  by (simp add: plain_env_def byol_acdc_def)

subsection \<open>The fit-loop replacement\<close>

text \<open>
  C9. The block that replaces the trainer's fit loop never ends with an exception,
  whatever is raised inside it: it returns the trainer, with the replaced loop when the
  block went through and untouched otherwise. \<^verbatim>\<open>main\<close> goes on to the training run in
  both cases, started with the same model, data, validation loader and checkpoint path.
\<close>

theorem fit_loop_patch_swallowed:
  "fit_loop_workaround E trainer =
     (Inr (if fails E Patch_fit_loop = None
           then trainer\<lparr>trainer_fit_loop := WorkaroundFitLoop\<rparr> else trainer),
      [Patch_fit_loop])
   \<and> bind (fit_loop_workaround E trainer)
        (\<lambda>tr. dispatch E cfg tr model dm loader vl ckpt)
      = bind (effect Patch_fit_loop)
          (\<lambda>_. dispatch E cfg
                  (if fails E Patch_fit_loop = None
                   then trainer\<lparr>trainer_fit_loop := WorkaroundFitLoop\<rparr> else trainer)
                  model dm loader vl ckpt)"
  by (cases "fails E Patch_fit_loop")
     (auto simp: fit_loop_workaround_def try_except_pass_def call_def bind_def ret_def effect_def)

theorem fit_loop_patch_swallowed_witness:
  "fit_loop_workaround
      (plain_env\<lparr>fails := (\<lambda>ev. if ev = Patch_fit_loop then Some (Raised ''TypeError'')
                               else None)\<rparr>)
      \<lparr>init_kwargs = [], trainer_fit_loop = FitLoop\<rparr>
     = (Inr \<lparr>init_kwargs = [], trainer_fit_loop = FitLoop\<rparr>, [Patch_fit_loop])
   \<and> fit_loop_workaround plain_env \<lparr>init_kwargs = [], trainer_fit_loop = FitLoop\<rparr>
     = (Inr \<lparr>init_kwargs = [], trainer_fit_loop = WorkaroundFitLoop\<rparr>, [Patch_fit_loop])"
  using fit_loop_patch_swallowed
          [of "plain_env\<lparr>fails := (\<lambda>ev. if ev = Patch_fit_loop then Some (Raised ''TypeError'')
                                         else None)\<rparr>"
              "\<lparr>init_kwargs = [], trainer_fit_loop = FitLoop\<rparr>"]
        fit_loop_patch_swallowed[of plain_env "\<lparr>init_kwargs = [], trainer_fit_loop = FitLoop\<rparr>"]
  by (simp add: plain_env_def)

subsection \<open>The callbacks\<close>

lemma assemble_callbacks_result:
  assumes "result (assemble_callbacks E cfg model wandb_run_id) = Inr (callbacks, logger)"
  shows "callbacks =
     (if checkpoint_enabled cfg
      then [Checkpointer cfg (path_join (checkpoint_dir cfg)
                                (method cfg @ ''_'' @ data_custom_dataset_name cfg))
              (checkpoint_frequency cfg) (checkpoint_keep_prev cfg)] else [])
     @ (if auto_umap_enabled cfg
        then [AutoUMAP (name cfg) (path_join (auto_umap_dir cfg) (method cfg))
                (auto_umap_frequency cfg)] else [])
     @ (if wandb_enabled cfg then [LearningRateMonitor ''step''] else [])
     @ (if checkpoint_enabled cfg then [WeightsSaver model milestones] else [])"
  using assms
  by (auto simp: assemble_callbacks_def run_simps split: option.splits if_splits sum.splits)

text \<open>
  C8 (as amended). When the callback block returns, the list it built follows three
  toggles: it holds a \<^verbatim>\<open>Checkpointer\<close> iff \<^verbatim>\<open>checkpoint.enabled\<close>, an
  \<^verbatim>\<open>AutoUMAP\<close> iff \<^verbatim>\<open>auto_umap.enabled\<close>, a \<^verbatim>\<open>LearningRateMonitor\<close> iff
  \<^verbatim>\<open>wandb.enabled\<close>, and a \<^verbatim>\<open>WeightsSaver\<close> iff \<^verbatim>\<open>checkpoint.enabled\<close> again;
  the weights saver is given the model and the milestones 5, 10, 50, 100, 200, 300, 400.
\<close>

theorem hooks_follow_three_toggles:
  assumes "result (assemble_callbacks E cfg model wandb_run_id) = Inr (callbacks, logger)"
  shows "((\<exists>c d f k. Checkpointer c d f k \<in> set callbacks) \<longleftrightarrow> checkpoint_enabled cfg)
       \<and> ((\<exists>n d f. AutoUMAP n d f \<in> set callbacks) \<longleftrightarrow> auto_umap_enabled cfg)
       \<and> ((\<exists>i. LearningRateMonitor i \<in> set callbacks) \<longleftrightarrow> wandb_enabled cfg)
       \<and> ((\<exists>m ms. WeightsSaver m ms \<in> set callbacks) \<longleftrightarrow> checkpoint_enabled cfg)
       \<and> (\<forall>m ms. WeightsSaver m ms \<in> set callbacks \<longrightarrow>
            m = model \<and> ms = [5, 10, 50, 100, 200, 300, 400])"
  unfolding assemble_callbacks_result[OF assms]
  by (auto simp: milestones_def)

theorem hooks_follow_three_toggles_witness:
  "result (assemble_callbacks plain_env byol_acdc (BaseMethod []) None)
     = Inr ([Checkpointer byol_acdc ''trained_models/byol_acdc'' 1 1,
             WeightsSaver (BaseMethod []) [5, 10, 50, 100, 200, 300, 400]], None)
   \<and> checkpoint_enabled byol_acdc \<and> \<not> auto_umap_enabled byol_acdc \<and> \<not> wandb_enabled byol_acdc"
  using hooks_follow_three_toggles[of plain_env byol_acdc "BaseMethod []" None
      "[Checkpointer byol_acdc ''trained_models/byol_acdc'' 1 1,
             WeightsSaver (BaseMethod []) [5, 10, 50, 100, 200, 300, 400]]" None]
  by (simp add: assemble_callbacks_def run_simps plain_env_def byol_acdc_def path_join_def milestones_def)

text \<open>
  C8 as stated fails: there are not four independent toggles. With only
  \<^verbatim>\<open>checkpoint.enabled\<close> set the list holds both the checkpoint hook and the
  weight-snapshot hook, clearing that one toggle removes both, and the learning-rate hook
  comes with \<^verbatim>\<open>wandb.enabled\<close>, the toggle of the logger.
\<close>

theorem four_independent_toggles_counterexample:
  "\<not> auto_umap_enabled byol_acdc \<and> \<not> wandb_enabled byol_acdc
   \<and> result (assemble_callbacks plain_env byol_acdc (BaseMethod []) None)
     = Inr ([Checkpointer byol_acdc ''trained_models/byol_acdc'' 1 1,
             WeightsSaver (BaseMethod []) [5, 10, 50, 100, 200, 300, 400]], None)
   \<and> result (assemble_callbacks plain_env (byol_acdc\<lparr>checkpoint_enabled := False\<rparr>)
               (BaseMethod []) None)
     = Inr ([], None)
   \<and> result (assemble_callbacks plain_env
               (byol_acdc\<lparr>checkpoint_enabled := False, wandb_enabled := True\<rparr>)
               (BaseMethod []) None)
     = Inr ([LearningRateMonitor ''step''],
            Some (WandbLogger ''byol-acdc'' PNone PNone False None None))"
  by (simp add: assemble_callbacks_def run_simps plain_env_def byol_acdc_def path_join_def milestones_def)

subsection \<open>The keyword arguments of the trainer\<close>

lemma keys_fold_select:
  "fst ` set (fold (\<lambda>name acc. case map_of d name of
                         Some v \<Rightarrow> AList.update name (Py v) acc
                       | None \<Rightarrow> acc) vs acc) \<subseteq> fst ` set acc \<union> set vs"
proof (induction vs arbitrary: acc)
  case Nil
  then show ?case by simp
next
  case (Cons v vs)
  show ?case
  proof (cases "map_of d v")
    case None
    then show ?thesis using Cons.IH[of acc] by auto
  next
    case (Some a)
    then show ?thesis using Cons.IH[of "AList.update v (Py a) acc"] 
      by (auto simp: dom_update)
  qed
qed

lemma keys_select_valid: "fst ` set (select_valid vs d) \<subseteq> set vs"
  using keys_fold_select[of d vs "[]"] by (simp add: select_valid_def)

lemma dict_update_overrides:
  "dict_update d (overrides cfg callbacks w) =
     AList.update ''strategy'' (if strategy cfg = PStr ''ddp'' then DDPStrategy False else Py (strategy cfg))
      (AList.update ''enable_checkpointing'' (Py (PBool False))
        (AList.update ''callbacks'' (Callbacks callbacks)
          (AList.update ''logger'' (if wandb_enabled cfg then Logger w else Py PNone) d)))"
  by (simp add: dict_update_def overrides_def)


lemma make_trainer_event:
  assumes "Make_trainer kw \<in> set (trace (make_trainer E cfg callbacks logger))"
  shows "\<exists>w. kw = dict_update (select_valid (trainer_parameters E) (to_container cfg))
                       (overrides cfg callbacks w)
             \<and> (wandb_enabled cfg \<longrightarrow> logger = Some w)"
  using assms
  by (auto simp: make_trainer_def run_simps split: option.splits if_splits sum.splits)

lemma make_trainer_kwargs:
  assumes "Make_trainer kw \<in> set (trace (make_trainer E cfg callbacks logger))"
  shows "fst ` set kw \<subseteq> set (trainer_parameters E)
                          \<union> {''logger'', ''callbacks'', ''enable_checkpointing'', ''strategy''}
   \<and> ({''logger'', ''callbacks'', ''enable_checkpointing'', ''strategy''}
         \<subseteq> set (trainer_parameters E)
        \<longrightarrow> fst ` set kw \<subseteq> set (trainer_parameters E))
   \<and> map_of kw ''logger'' = (if wandb_enabled cfg then map_option Logger logger
                               else Some (Py PNone))
   \<and> map_of kw ''callbacks'' = Some (Callbacks callbacks)
   \<and> map_of kw ''enable_checkpointing'' = Some (Py (PBool False))
   \<and> map_of kw ''strategy'' = Some (if strategy cfg = PStr ''ddp'' then DDPStrategy False
                                    else Py (strategy cfg))"
proof -
  from make_trainer_event[OF assms] obtain w where
    kw: "kw = dict_update (select_valid (trainer_parameters E) (to_container cfg))
                 (overrides cfg callbacks w)"
    and w: "wandb_enabled cfg \<longrightarrow> logger = Some w" by blast
  have k: "fst ` set kw = {''logger'', ''callbacks'', ''enable_checkpointing'', ''strategy''}
             \<union> fst ` set (select_valid (trainer_parameters E) (to_container cfg))"
    unfolding kw dict_update_overrides by (simp add: dom_update)
  have m: "map_of kw = (map_of (select_valid (trainer_parameters E) (to_container cfg)))
      (''logger'' \<mapsto> (if wandb_enabled cfg then Logger w else Py PNone),
       ''callbacks'' \<mapsto> Callbacks callbacks,
       ''enable_checkpointing'' \<mapsto> Py (PBool False),
       ''strategy'' \<mapsto> (if strategy cfg = PStr ''ddp'' then DDPStrategy False
                         else Py (strategy cfg)))"
    unfolding kw dict_update_overrides by (simp only: update_conv')
  show ?thesis
    using keys_select_valid[of "trainer_parameters E" "to_container cfg"] w
    unfolding k m by auto
qed

subsection \<open>Pretrained weights\<close>

lemma pretrained_config_imagenet:
  assumes "fst (pretrained_config cfg) = PStr ''imagenet''"
      and "''pretrained'' \<notin> fst ` set (backbone_kwargs cfg)"
  shows "map_of (backbone_kwargs (snd (pretrained_config cfg))) ''pretrained'' = Some (PBool True)"
proof -
  have "''pretrained'' \<notin> fst ` set (AList.delete ''pretrained_weights'' (backbone_kwargs cfg))"
    using assms(2) dom_delete_subset[of "''pretrained_weights''" "backbone_kwargs cfg"] by blast
  then show ?thesis
    using assms
    by (auto simp: pretrained_config_def pop_def update_conv' split: option.splits prod.splits)
qed

lemma model_assembly_zoo_only_if:
  assumes "ev \<in> set (trace (model_assembly E cfg))" "is_zoo_load ev"
  shows "fst (pretrained_config cfg) \<notin> set [PNone, PStr ''None'', PStr ''imagenet'']"
  using assms
  by (cases "pretrained_config cfg")
     (auto simp: model_assembly_def load_pretrained_def instantiate_def run_simps
           split: option.splits sum.splits if_splits)

lemma model_assembly_zoo_if:
  assumes "fst (pretrained_config cfg) \<notin> set [PNone, PStr ''None'', PStr ''imagenet'']"
      and "result (model_assembly E cfg) = Inr r"
  shows "\<exists>n. Zoo_lookup (fst (pretrained_config cfg)) n \<in> set (trace (model_assembly E cfg))
             \<and> Load_state_dict (get_state_dict_form_pretrained_model_zoo E
                                   (fst (pretrained_config cfg)) n)
                 \<in> set (trace (model_assembly E cfg))"
  using assms
  by (cases "pretrained_config cfg")
     (auto simp: model_assembly_def load_pretrained_def instantiate_def run_simps
           split: option.splits sum.splits if_splits)

lemma model_assembly_method_init:
  assumes "Method_init m c \<in> set (trace (model_assembly E cfg))"
  shows "c = snd (pretrained_config cfg)"
  using assms
  by (cases "pretrained_config cfg")
     (auto simp: model_assembly_def load_pretrained_def instantiate_def run_simps
           split: option.splits sum.splits if_splits)

text \<open>
  C10. In the model block, a lookup in the weight zoo or a load into the backbone happens
  only if the popped \<^verbatim>\<open>pretrained_weights\<close> value is none of \<^verbatim>\<open>None\<close>,
  \<^verbatim>\<open>"None"\<close> and \<^verbatim>\<open>"imagenet"\<close>; with such a value a block that returns has done
  both, the load with the weights the lookup returned. When the value is
  \<^verbatim>\<open>"imagenet"\<close> and the keyword arguments have no key \<^verbatim>\<open>pretrained\<close>, the method is
  constructed from a configuration whose keyword arguments hold \<^verbatim>\<open>pretrained = True\<close>,
  and neither lookup nor load happens.
\<close>

theorem zoo_load_iff_specifier:
  "((\<exists>ev \<in> set (trace (model_assembly E cfg)). is_zoo_load ev)
      \<longrightarrow> fst (pretrained_config cfg) \<notin> set [PNone, PStr ''None'', PStr ''imagenet''])
   \<and> (fst (pretrained_config cfg) \<notin> set [PNone, PStr ''None'', PStr ''imagenet'']
        \<and> result (model_assembly E cfg) = Inr r
      \<longrightarrow> (\<exists>n. Zoo_lookup (fst (pretrained_config cfg)) n \<in> set (trace (model_assembly E cfg))
             \<and> Load_state_dict (get_state_dict_form_pretrained_model_zoo E
                                   (fst (pretrained_config cfg)) n)
                 \<in> set (trace (model_assembly E cfg))))
   \<and> (fst (pretrained_config cfg) = PStr ''imagenet''
        \<and> ''pretrained'' \<notin> fst ` set (backbone_kwargs cfg)
      \<longrightarrow> (\<forall>m c. Method_init m c \<in> set (trace (model_assembly E cfg))
                  \<longrightarrow> map_of (backbone_kwargs c) ''pretrained'' = Some (PBool True))
        \<and> (\<forall>ev \<in> set (trace (model_assembly E cfg)). \<not> is_zoo_load ev))"
proof (intro conjI impI)
  show "fst (pretrained_config cfg) \<notin> set [PNone, PStr ''None'', PStr ''imagenet'']"
    if "\<exists>ev \<in> set (trace (model_assembly E cfg)). is_zoo_load ev"
    using that model_assembly_zoo_only_if by blast
next
  assume "fst (pretrained_config cfg) \<notin> set [PNone, PStr ''None'', PStr ''imagenet'']
        \<and> result (model_assembly E cfg) = Inr r"
  then show "\<exists>n. Zoo_lookup (fst (pretrained_config cfg)) n \<in> set (trace (model_assembly E cfg))
             \<and> Load_state_dict (get_state_dict_form_pretrained_model_zoo E
                                   (fst (pretrained_config cfg)) n)
                 \<in> set (trace (model_assembly E cfg))"
    using model_assembly_zoo_if by blast
next
  assume a: "fst (pretrained_config cfg) = PStr ''imagenet''
        \<and> ''pretrained'' \<notin> fst ` set (backbone_kwargs cfg)"
  show "\<forall>m c. Method_init m c \<in> set (trace (model_assembly E cfg))
                  \<longrightarrow> map_of (backbone_kwargs c) ''pretrained'' = Some (PBool True)"
    using a pretrained_config_imagenet model_assembly_method_init by blast
  show "\<forall>ev \<in> set (trace (model_assembly E cfg)). \<not> is_zoo_load ev"
    using a model_assembly_zoo_only_if[of _ E cfg] by auto
qed

theorem zoo_load_iff_specifier_witness:
  "fst (pretrained_config byol_acdc) = PStr ''imagenet''
   \<and> ''pretrained'' \<notin> fst ` set (backbone_kwargs byol_acdc)
   \<and> \<not> (\<exists>ev \<in> set (trace (model_assembly plain_env byol_acdc)). is_zoo_load ev)
   \<and> fst (pretrained_config (byol_acdc\<lparr>backbone_kwargs := [(''pretrained_weights'', PStr ''acdc_zoo'')]\<rparr>))
       \<notin> set [PNone, PStr ''None'', PStr ''imagenet'']
   \<and> result (model_assembly plain_env (byol_acdc\<lparr>backbone_kwargs := [(''pretrained_weights'', PStr ''acdc_zoo'')]\<rparr>))
       = Inr (byol_acdc\<lparr>backbone_kwargs := [(''pretrained_weights'', PStr ''acdc_zoo'')]\<rparr>,
              BaseMomentumMethod [(''w'', [7])] [(''w'', [7])])
   \<and> (\<exists>ev \<in> set (trace (model_assembly plain_env (byol_acdc\<lparr>backbone_kwargs := [(''pretrained_weights'', PStr ''acdc_zoo'')]\<rparr>))). is_zoo_load ev)"
proof -
  let ?c = "byol_acdc\<lparr>backbone_kwargs := [(''pretrained_weights'', PStr ''acdc_zoo'')]\<rparr>"
  have 1: "fst (pretrained_config byol_acdc) = PStr ''imagenet''
           \<and> ''pretrained'' \<notin> fst ` set (backbone_kwargs byol_acdc)"
    by (simp add: pretrained_config_def pop_def byol_acdc_def)
  have 2: "fst (pretrained_config ?c) \<notin> set [PNone, PStr ''None'', PStr ''imagenet'']"
    by (simp add: pretrained_config_def pop_def byol_acdc_def)
  have 3: "result (model_assembly plain_env ?c)
       = Inr (?c, BaseMomentumMethod [(''w'', [7])] [(''w'', [7])])"
    by (simp add: model_assembly_def load_pretrained_def instantiate_def pretrained_config_def
          pop_def load_state_dict_def run_simps byol_acdc_def plain_env_def)
  from zoo_load_iff_specifier[of plain_env byol_acdc] 1
  have A: "\<forall>ev \<in> set (trace (model_assembly plain_env byol_acdc)). \<not> is_zoo_load ev"
    by blast
  from zoo_load_iff_specifier[of plain_env ?c "(?c, BaseMomentumMethod [(''w'', [7])] [(''w'', [7])])"] 2 3
  obtain n where "Zoo_lookup (fst (pretrained_config ?c)) n \<in> set (trace (model_assembly plain_env ?c))"
    by blast
  then have B: "\<exists>ev \<in> set (trace (model_assembly plain_env ?c)). is_zoo_load ev"
    by (rule bexI[rotated]) simp
  show ?thesis
    using 1 2 3 A B by blast
qed

lemma initialize_momentum_params_values:
  "length m = length b \<Longrightarrow> map snd (initialize_momentum_params b m) = map snd b"
  by (induction b m rule: list_induct2') auto

lemma load_state_dict_length:
  "load_state_dict b w = Inr b' \<Longrightarrow> length b' = length b"
  by (auto simp: load_state_dict_def split: if_splits)

text \<open>
  C4. With a \<^verbatim>\<open>pretrained_weights\<close> value other than \<^verbatim>\<open>None\<close>, \<^verbatim>\<open>"None"\<close> and
  \<^verbatim>\<open>"imagenet"\<close>, and a method instance with a momentum backbone that has as many
  parameters as the backbone, a loading block that returns leaves the backbone with the
  loaded state and the momentum backbone with the same parameters as the backbone.
\<close>

theorem momentum_backbone_reseeded:
  assumes "pc \<notin> set [PNone, PStr ''None'', PStr ''imagenet'']"
      and "model = BaseMomentumMethod b m" and "length m = length b"
      and "result (load_pretrained E cfg pc model) = Inr model'"
  shows "\<exists>b' m'. load_state_dict b (get_state_dict_form_pretrained_model_zoo E pc
                       (get_default (backbone_kwargs cfg) ''in_chans'' (PInt 3))) = Inr b'
              \<and> model' = BaseMomentumMethod b' m'
              \<and> parameters m' = parameters b'"
  using assms
  by (auto simp: load_pretrained_def run_simps parameters_def initialize_momentum_params_values
        load_state_dict_length split: option.splits sum.splits)

theorem momentum_backbone_reseeded_witness:
  "PStr ''acdc_zoo'' \<notin> set [PNone, PStr ''None'', PStr ''imagenet'']
   \<and> length [(''w'', [2::nat])] = length [(''w'', [1::nat])]
   \<and> result (load_pretrained plain_env byol_acdc (PStr ''acdc_zoo'')
               (BaseMomentumMethod [(''w'', [1])] [(''w'', [2])]))
       = Inr (BaseMomentumMethod [(''w'', [7])] [(''w'', [7])])
   \<and> parameters [(''w'', [7::nat])] = parameters [(''w'', [7::nat])]"
proof -
  have r: "result (load_pretrained plain_env byol_acdc (PStr ''acdc_zoo'')
               (BaseMomentumMethod [(''w'', [1])] [(''w'', [2])]))
       = Inr (BaseMomentumMethod [(''w'', [7])] [(''w'', [7])])"
    by (simp add: load_pretrained_def load_state_dict_def run_simps plain_env_def)
  show ?thesis
    using r momentum_backbone_reseeded[of "PStr ''acdc_zoo''" "BaseMomentumMethod [(''w'', [1])] [(''w'', [2])]"
              "[(''w'', [1])]" "[(''w'', [2])]" plain_env byol_acdc, OF _ refl _ r]
    by simp
qed

subsection \<open>Where checkpoints are written and where they are looked for\<close>

text \<open>
  C1 fails on the code. For the method \<^verbatim>\<open>byol\<close> and the dataset name \<^verbatim>\<open>acdc\<close>
  under \<^verbatim>\<open>trained_models\<close>, the resolver is asked to scan
  \<^verbatim>\<open>trained_models/byol\<close> while the checkpointer writes below
  \<^verbatim>\<open>trained_models/byol_acdc\<close>, a directory that is not in the scanned tree.
\<close>

theorem resume_scans_other_directory:
  "scanned_dirs (trace (main plain_env byol_acdc)) = [''trained_models/byol'']
   \<and> checkpoint_dirs (trace (main plain_env byol_acdc)) = [''trained_models/byol_acdc'']
   \<and> \<not> within_tree ''trained_models/byol'' ''trained_models/byol_acdc''"
  by (simp add: main_def startup_checks_def crop_count_check_def model_assembly_def
        pretrained_config_def pop_def instantiate_def load_pretrained_def validation_loader_def
        pretrain_data_def resume_def assemble_callbacks_def make_trainer_def
        fit_loop_workaround_def dispatch_def try_except_pass_def call_def run_simps
        plain_env_def byol_acdc_def path_join_def within_tree_def components_def)

subsection \<open>The trace of \<^verbatim>\<open>main\<close>, block by block\<close>

lemma in_trace_bind:
  assumes "ev \<in> set (trace (bind m f))"
  obtains "ev \<in> set (trace m)" | x where "result m = Inr x" "ev \<in> set (trace (f x))"
  using assms by (auto simp: trace_bind split: sum.splits)

lemma fit_loop_workaround_run:
  "fit_loop_workaround E trainer =
     (Inr (if fails E Patch_fit_loop = None
           then trainer\<lparr>trainer_fit_loop := WorkaroundFitLoop\<rparr> else trainer),
      [Patch_fit_loop])"
  by (cases "fails E Patch_fit_loop")
     (auto simp: fit_loop_workaround_def try_except_pass_def call_def bind_def ret_def)

lemma main_event_cases [consumes 1, case_names startup model validation data resume hooks trainer patch fit]:
  assumes "ev \<in> set (trace (main E cfg0))"
  obtains
    (startup) "ev \<in> set (trace (startup_checks E cfg0))"
  | (model) c where "result (startup_checks E cfg0) = Inr c"
      "ev \<in> set (trace (model_assembly E c))"
  | (validation) c c1 model where "result (startup_checks E cfg0) = Inr c"
      "result (model_assembly E c) = Inr (c1, model)"
      "ev \<in> set (trace (validation_loader E c1))"
  | (data) c c1 model vl where "result (startup_checks E cfg0) = Inr c"
      "result (model_assembly E c) = Inr (c1, model)"
      "result (validation_loader E c1) = Inr vl"
      "ev \<in> set (trace (pretrain_data E c1 vl))"
  | (resume) c c1 model vl dm loader where "result (startup_checks E cfg0) = Inr c"
      "result (model_assembly E c) = Inr (c1, model)"
      "result (validation_loader E c1) = Inr vl"
      "result (pretrain_data E c1 vl) = Inr (dm, loader)"
      "ev \<in> set (trace (resume E c1))"
  | (hooks) c c1 model vl dm loader c2 ckpt run_id where "result (startup_checks E cfg0) = Inr c"
      "result (model_assembly E c) = Inr (c1, model)"
      "result (validation_loader E c1) = Inr vl"
      "result (pretrain_data E c1 vl) = Inr (dm, loader)"
      "result (resume E c1) = Inr (c2, ckpt, run_id)"
      "ev \<in> set (trace (assemble_callbacks E c2 model run_id))"
  | (trainer) c c1 model vl dm loader c2 ckpt run_id callbacks logger where
      "result (startup_checks E cfg0) = Inr c"
      "result (model_assembly E c) = Inr (c1, model)"
      "result (validation_loader E c1) = Inr vl"
      "result (pretrain_data E c1 vl) = Inr (dm, loader)"
      "result (resume E c1) = Inr (c2, ckpt, run_id)"
      "result (assemble_callbacks E c2 model run_id) = Inr (callbacks, logger)"
      "ev \<in> set (trace (make_trainer E c2 callbacks logger))"
  | (patch) "ev = Patch_fit_loop"
  | (fit) c c1 model vl dm loader c2 ckpt run_id tr where
      "result (startup_checks E cfg0) = Inr c"
      "result (model_assembly E c) = Inr (c1, model)"
      "result (validation_loader E c1) = Inr vl"
      "result (pretrain_data E c1 vl) = Inr (dm, loader)"
      "result (resume E c1) = Inr (c2, ckpt, run_id)"
      "ev \<in> set (trace (dispatch E c2 tr model dm loader vl ckpt))"
proof -
  show thesis
  apply (insert assms[unfolded main_def])
  apply (erule in_trace_bind, erule startup)
  apply (erule in_trace_bind, erule (1) model)
  apply (simp only: split_paired_all prod.case)
  apply (erule in_trace_bind, rule validation, assumption+)
  apply (erule in_trace_bind, rule data, assumption+)
  apply (simp only: split_paired_all prod.case)
  apply (erule in_trace_bind, rule resume, assumption+)
  apply (simp only: split_paired_all prod.case)
  apply (erule in_trace_bind, rule hooks, assumption+)
  apply (simp only: split_paired_all prod.case)
  apply (erule in_trace_bind, rule trainer, assumption+)
  apply (erule in_trace_bind)
   apply (rule patch, simp add: fit_loop_workaround_run)
  apply (rule fit, assumption+)
  done
qed

lemma startup_origin: "ev \<in> set (trace (startup_checks E cfg)) \<Longrightarrow> origin ev = Startup"
  by (auto simp: startup_checks_def crop_count_check_def run_simps split: option.splits sum.splits if_splits)

lemma model_origin: "ev \<in> set (trace (model_assembly E cfg)) \<Longrightarrow> origin ev = Model"
  by (cases "pretrained_config cfg")
     (auto simp: model_assembly_def load_pretrained_def instantiate_def run_simps
           split: option.splits sum.splits if_splits)

lemma validation_origin: "ev \<in> set (trace (validation_loader E cfg)) \<Longrightarrow> origin ev = Validation"
  by (auto simp: validation_loader_def run_simps split: option.splits sum.splits if_splits)

lemma pipelines_dali_origin:
  "ev \<in> set (trace (pipelines_dali E cfg augs)) \<Longrightarrow> origin ev = Data"
  by (induction augs) (auto simp: run_simps split: option.splits sum.splits if_splits)

lemma pipelines_standard_origin:
  "ev \<in> set (trace (pipelines_standard E cfg augs)) \<Longrightarrow> origin ev = Data"
  by (induction augs) (auto simp: run_simps split: option.splits sum.splits if_splits)

lemma data_origin: "ev \<in> set (trace (pretrain_data E cfg vl)) \<Longrightarrow> origin ev = Data"
  by (auto simp: pretrain_data_def run_simps pipelines_dali_origin pipelines_standard_origin
        split: option.splits sum.splits if_splits)

lemma resume_origin: "ev \<in> set (trace (resume E cfg)) \<Longrightarrow> origin ev = Resume"
  by (auto simp: resume_def run_simps split: option.splits sum.splits if_splits prod.splits)

lemma hooks_origin:
  "ev \<in> set (trace (assemble_callbacks E cfg model run_id)) \<Longrightarrow> origin ev = Hooks"
  by (auto simp: assemble_callbacks_def run_simps split: option.splits sum.splits if_splits)

lemma trainer_origin:
  "ev \<in> set (trace (make_trainer E cfg callbacks logger)) \<Longrightarrow> origin ev = Trainer"
  by (auto simp: make_trainer_def run_simps split: option.splits sum.splits if_splits)

lemma dispatch_origin:
  "ev \<in> set (trace (dispatch E cfg tr model dm loader vl ckpt)) \<Longrightarrow> origin ev = Fit"
  by (auto simp: dispatch_def run_simps split: option.splits sum.splits if_splits)

lemma is_scan_origin: "is_scan ev \<Longrightarrow> origin ev = Resume"
  by (cases ev) auto

lemma fit_ckpt_path_origin: "fit_ckpt_path ev = Some ck \<Longrightarrow> origin ev = Fit"
  by (cases ev) auto

lemma standard_backend_origin: "standard_backend ev \<Longrightarrow> origin ev = Data \<or> origin ev = Fit"
  by (cases ev) auto


lemma result_bind_Inr:
  assumes "result (bind m f) = Inr y"
  obtains x where "result m = Inr x" "result (f x) = Inr y"
    "set (trace (f x)) \<subseteq> set (trace (bind m f))"
  using assms by (auto simp: run_simps split: sum.splits)

lemma main_returns:
  assumes "result (main E cfg0) = Inr u"
  obtains c c1 model vl dm loader c2 ckpt run_id tr where
      "result (startup_checks E cfg0) = Inr c"
      "result (model_assembly E c) = Inr (c1, model)"
      "result (validation_loader E c1) = Inr vl"
      "result (pretrain_data E c1 vl) = Inr (dm, loader)"
      "result (resume E c1) = Inr (c2, ckpt, run_id)"
      "result (dispatch E c2 tr model dm loader vl ckpt) = Inr u"
      "set (trace (dispatch E c2 tr model dm loader vl ckpt)) \<subseteq> set (trace (main E cfg0))"
proof -
  show thesis
    apply (insert assms)
    unfolding main_def
    apply (erule result_bind_Inr)
    apply (erule result_bind_Inr)
    apply (simp only: split_paired_all prod.case)
    apply (erule result_bind_Inr)
    apply (erule result_bind_Inr)
    apply (simp only: split_paired_all prod.case)
    apply (erule result_bind_Inr)
    apply (simp only: split_paired_all prod.case)
    apply (erule result_bind_Inr)
    apply (simp only: split_paired_all prod.case)
    apply (erule result_bind_Inr)
    apply (erule result_bind_Inr)
    apply (rule that[unfolded main_def], assumption+)
    apply (blast intro: subset_trans)
    done
qed

lemma startup_result:
  "result (startup_checks E cfg0) = Inr c \<Longrightarrow>
   c = (parse_cfg E cfg0)\<lparr>name := format_name E (parse_cfg E cfg0)\<rparr>"
  by (auto simp: startup_checks_def run_simps split: option.splits sum.splits if_splits)

lemma model_assembly_cfg:
  "result (model_assembly E c) = Inr (c1, m) \<Longrightarrow> \<exists>kw. c1 = c\<lparr>backbone_kwargs := kw\<rparr>"
  by (cases "pretrained_config c")
     (auto simp: model_assembly_def pretrained_config_def run_simps
           split: option.splits sum.splits if_splits prod.splits)

lemma resume_explicit:
  "resume_from_checkpoint c = Some (Some p) \<Longrightarrow>
   resume E c = ret (c\<lparr>resume_from_checkpoint := None\<rparr>, Some p, None)"
  by (simp add: resume_def)

lemma dispatch_ckpt:
  "ev \<in> set (trace (dispatch E c tr m dm loader vl ck)) \<Longrightarrow> fit_ckpt_path ev = Some ck"
  by (auto simp: dispatch_def run_simps split: option.splits sum.splits if_splits)

lemma dispatch_returns:
  "result (dispatch E c tr m dm loader vl ck) = Inr u \<Longrightarrow>
   \<exists>ev \<in> set (trace (dispatch E c tr m dm loader vl ck)). fit_ckpt_path ev = Some ck"
  by (auto simp: dispatch_def run_simps split: option.splits sum.splits if_splits)

lemma reaches_resume:
  assumes "result (startup_checks E cfg0) = Inr c" "result (model_assembly E c) = Inr (c1, model)"
  shows "resume_from_checkpoint c1 = resume_from_checkpoint (parse_cfg E cfg0)"
    and "data_format c1 = data_format (parse_cfg E cfg0)"
  using startup_result[OF assms(1)] model_assembly_cfg[OF assms(2)] by auto

subsection \<open>An explicit checkpoint to resume from\<close>

text \<open>
  C2. When the (parsed) configuration holds a path under \<^verbatim>\<open>resume_from_checkpoint\<close>,
  \<^verbatim>\<open>main\<close> neither builds the auto-resume resolver nor asks it for a checkpoint,
  whatever \<^verbatim>\<open>auto_resume.enabled\<close> says and whatever the resolver would find; every
  training run it starts is started with that path as \<^verbatim>\<open>ckpt_path\<close>, and a
  \<^verbatim>\<open>main\<close> that returns has started one.
\<close>

theorem explicit_resume_skips_scan:
  assumes "resume_from_checkpoint (parse_cfg E cfg) = Some (Some p)"
  shows "(\<forall>ev \<in> set (trace (main E cfg)).
            \<not> is_scan ev \<and> (fit_ckpt_path ev = None \<or> fit_ckpt_path ev = Some (Some p)))
       \<and> (result (main E cfg) = Inr () \<longrightarrow>
            (\<exists>ev \<in> set (trace (main E cfg)). fit_ckpt_path ev = Some (Some p)))"
proof (intro conjI ballI impI)
  fix ev assume ev: "ev \<in> set (trace (main E cfg))"
  have "origin ev \<noteq> Resume \<and> (origin ev = Fit \<longrightarrow> fit_ckpt_path ev = Some (Some p))"
    using ev
  proof (cases rule: main_event_cases)
    case startup
    then show ?thesis using startup_origin by fastforce
  next
    case (model c)
    then show ?thesis using model_origin by fastforce
  next
    case (validation c c1 model)
    then show ?thesis using validation_origin by fastforce
  next
    case (data c c1 model vl)
    then show ?thesis using data_origin by fastforce
  next
    case (resume c c1 model vl dm loader)
    have "resume_from_checkpoint c1 = Some (Some p)"
      using reaches_resume(1)[OF resume(1,2)] assms by simp
    then show ?thesis using resume(5) by (simp add: resume_explicit)
  next
    case (hooks c c1 model vl dm loader c2 ckpt run_id)
    then show ?thesis using hooks_origin by fastforce
  next
    case (trainer c c1 model vl dm loader c2 ckpt run_id callbacks logger)
    then show ?thesis using trainer_origin by fastforce
  next
    case patch
    then show ?thesis by simp
  next
    case (fit c c1 model vl dm loader c2 ckpt run_id tr)
    have "resume_from_checkpoint c1 = Some (Some p)"
      using reaches_resume(1)[OF fit(1,2)] assms by simp
    then have "ckpt = Some p" using fit(5) by (simp add: resume_explicit)
    then show ?thesis using dispatch_ckpt[OF fit(6)] dispatch_origin[OF fit(6)] by simp
  qed
  then show "\<not> is_scan ev" using is_scan_origin by blast
  show "fit_ckpt_path ev = None \<or> fit_ckpt_path ev = Some (Some p)"
    using \<open>origin ev \<noteq> Resume \<and> (origin ev = Fit \<longrightarrow> fit_ckpt_path ev = Some (Some p))\<close>
      fit_ckpt_path_origin[of ev] by (cases "fit_ckpt_path ev") auto
next
  assume "result (main E cfg) = Inr ()"
  then show "\<exists>ev \<in> set (trace (main E cfg)). fit_ckpt_path ev = Some (Some p)"
  proof (cases rule: main_returns)
    case (1 c c1 model vl dm loader c2 ckpt run_id tr)
    have "resume_from_checkpoint c1 = Some (Some p)"
      using reaches_resume(1)[OF 1(1,2)] assms by simp
    then have "ckpt = Some p" using 1(5) by (simp add: resume_explicit)
    then show ?thesis using dispatch_returns[OF 1(6)] 1(7) by blast
  qed
qed


lemmas main_blocks = main_def startup_checks_def crop_count_check_def model_assembly_def
  pretrained_config_def pop_def instantiate_def load_pretrained_def load_state_dict_def
  validation_loader_def pretrain_data_def resume_def assemble_callbacks_def make_trainer_def
  dict_update_def overrides_def select_valid_def to_container_def group_def
  fit_loop_workaround_def dispatch_def try_except_pass_def call_def path_join_def

theorem explicit_resume_skips_scan_witness:
  "resume_from_checkpoint
     (parse_cfg plain_env (byol_acdc\<lparr>resume_from_checkpoint := Some (Some ''runs/last.ckpt'')\<rparr>))
     = Some (Some ''runs/last.ckpt'')
   \<and> auto_resume_enabled (byol_acdc\<lparr>resume_from_checkpoint := Some (Some ''runs/last.ckpt'')\<rparr>)
   \<and> result (main plain_env (byol_acdc\<lparr>resume_from_checkpoint := Some (Some ''runs/last.ckpt'')\<rparr>))
       = Inr ()
   \<and> (\<exists>ev \<in> set (trace (main plain_env
                           (byol_acdc\<lparr>resume_from_checkpoint := Some (Some ''runs/last.ckpt'')\<rparr>))).
         fit_ckpt_path ev = Some (Some ''runs/last.ckpt''))
   \<and> \<not> (\<exists>ev \<in> set (trace (main plain_env
                           (byol_acdc\<lparr>resume_from_checkpoint := Some (Some ''runs/last.ckpt'')\<rparr>))).
           is_scan ev)"
proof -
  let ?c = "byol_acdc\<lparr>resume_from_checkpoint := Some (Some ''runs/last.ckpt'')\<rparr>"
  have h: "resume_from_checkpoint (parse_cfg plain_env ?c) = Some (Some ''runs/last.ckpt'')"
    by (simp add: plain_env_def)
  have a: "auto_resume_enabled ?c" by (simp add: byol_acdc_def)
  have r: "result (main plain_env ?c) = Inr ()"
    by (simp add: main_blocks run_simps plain_env_def byol_acdc_def)
  show ?thesis
    using h a r explicit_resume_skips_scan[OF h] by blast
qed

subsection \<open>The DALI backend without its dependency\<close>

lemma resume_cfg:
  "result (resume E c1) = Inr (c2, ck, rid) \<Longrightarrow> \<exists>r. c2 = c1\<lparr>resume_from_checkpoint := r\<rparr>"
  by (auto simp: resume_def run_simps split: option.splits sum.splits if_splits prod.splits
           intro: exI[of _ "resume_from_checkpoint c1"])

lemma main_fails_in_data:
  assumes "result (startup_checks E cfg) = Inr c" "result (model_assembly E c) = Inr (c1, model)"
    "result (validation_loader E c1) = Inr vl" "result (pretrain_data E c1 vl) = Inl e"
  shows "result (main E cfg) = Inl e"
  using assms by (simp add: main_def result_bind)

lemma pretrain_data_no_dali:
  "data_format c = ''dali'' \<Longrightarrow> \<not> dali_avaliable E \<Longrightarrow>
   pretrain_data E c vl = (Inl (AssertionError dali_message), [])"
  by (simp add: pretrain_data_def assert_def bind_def raise_def)

text \<open>
  C7. When the (parsed) configuration selects the format \<^verbatim>\<open>dali\<close> and the import
  of the DALI data module had failed, \<^verbatim>\<open>main\<close> ends with an exception. Its trace
  has no event of the data block and no training run: neither backend builds a
  transform, dataset or loader. Whenever the blocks before the data block return, the
  exception is the assertion of lines 142-144 with its message about the missing install.
\<close>

theorem dali_without_dependency_fails:
  assumes "data_format (parse_cfg E cfg) = ''dali''" and "\<not> dali_avaliable E"
  shows "(\<exists>e. result (main E cfg) = Inl e)
       \<and> (\<forall>ev \<in> set (trace (main E cfg)).
             \<not> standard_backend ev \<and> origin ev \<noteq> Data \<and> origin ev \<noteq> Fit)
       \<and> (\<forall>c c1 model vl.
             result (startup_checks E cfg) = Inr c
             \<and> result (model_assembly E c) = Inr (c1, model)
             \<and> result (validation_loader E c1) = Inr vl
             \<longrightarrow> result (main E cfg) = Inl (AssertionError dali_message))"
proof -
  have no_data: "pretrain_data E c1 vl = (Inl (AssertionError dali_message), [])"
    if "result (startup_checks E cfg) = Inr c" "result (model_assembly E c) = Inr (c1, model)"
    for c c1 model vl
    using reaches_resume(2)[OF that] assms by (simp add: pretrain_data_no_dali)
  have fails: "\<exists>e. result (main E cfg) = Inl e"
  proof (cases "result (startup_checks E cfg)")
    case (Inl e)
    then show ?thesis unfolding main_def by (simp add: result_bind)
  next
    case c: (Inr c)
    show ?thesis
    proof (cases "result (model_assembly E c)")
      case (Inl e)
      then show ?thesis using c unfolding main_def by (simp add: result_bind)
    next
      case (Inr cm)
      obtain c1 model where cm: "cm = (c1, model)" by (cases cm)
      show ?thesis
      proof (cases "result (validation_loader E c1)")
        case (Inl e)
        then show ?thesis using c Inr cm unfolding main_def by (simp add: result_bind)
      next
        case vl: (Inr vl)
        show ?thesis
          using main_fails_in_data[OF c Inr[unfolded cm] vl, of "AssertionError dali_message"]
            no_data[OF c Inr[unfolded cm], of vl] by simp
      qed
    qed
  qed
  have events: "\<not> standard_backend ev \<and> origin ev \<noteq> Data \<and> origin ev \<noteq> Fit"
    if "ev \<in> set (trace (main E cfg))" for ev
  proof -
    have "origin ev \<noteq> Data \<and> origin ev \<noteq> Fit"
      using that
    proof (cases rule: main_event_cases)
      case startup
      then show ?thesis using startup_origin by fastforce
    next
      case (model c)
      then show ?thesis using model_origin by fastforce
    next
      case (validation c c1 model)
      then show ?thesis using validation_origin by fastforce
    next
      case (data c c1 model vl)
      then show ?thesis using no_data[of c c1 model vl] by simp
    next
      case (resume c c1 model vl dm loader)
      then show ?thesis using no_data[of c c1 model vl] by simp
    next
      case (hooks c c1 model vl dm loader c2 ckpt run_id)
      then show ?thesis using hooks_origin by fastforce
    next
      case (trainer c c1 model vl dm loader c2 ckpt run_id callbacks logger)
      then show ?thesis using trainer_origin by fastforce
    next
      case patch
      then show ?thesis by simp
    next
      case (fit c c1 model vl dm loader c2 ckpt run_id tr)
      then show ?thesis using no_data[of c c1 model vl] by simp
    qed
    then show ?thesis using standard_backend_origin by blast
  qed
  have msg: "result (main E cfg) = Inl (AssertionError dali_message)"
    if "result (startup_checks E cfg) = Inr c" "result (model_assembly E c) = Inr (c1, model)"
       "result (validation_loader E c1) = Inr vl" for c c1 model vl
    using main_fails_in_data[OF that, of "AssertionError dali_message"]
      no_data[OF that(1,2), of vl]
    by simp
  show ?thesis using fails events msg by blast
qed

theorem dali_without_dependency_fails_witness:
  "data_format (parse_cfg plain_env (byol_acdc\<lparr>data_format := ''dali''\<rparr>)) = ''dali''
   \<and> \<not> dali_avaliable plain_env
   \<and> result (main plain_env (byol_acdc\<lparr>data_format := ''dali''\<rparr>))
       = Inl (AssertionError (Message
           ''Dali is not currently avaiable, please install it first with pip3 install .[dali].''))
   \<and> \<not> (\<exists>ev \<in> set (trace (main plain_env (byol_acdc\<lparr>data_format := ''dali''\<rparr>))).
           standard_backend ev)"
proof -
  let ?c = "byol_acdc\<lparr>data_format := ''dali''\<rparr>"
  have h: "data_format (parse_cfg plain_env ?c) = ''dali''" "\<not> dali_avaliable plain_env"
    by (simp_all add: plain_env_def)
  have r: "result (startup_checks plain_env ?c) = Inr ?c"
    by (simp add: main_blocks run_simps plain_env_def byol_acdc_def)
  have m: "result (model_assembly plain_env ?c)
     = Inr (?c\<lparr>backbone_kwargs := [(''pretrained'', PBool True), (''pretrained_weights'', PStr ''imagenet'')]\<rparr>,
            BaseMomentumMethod [(''w'', [1])] [(''w'', [2])])"
    by (simp add: main_blocks run_simps plain_env_def byol_acdc_def)
  have v: "result (validation_loader plain_env
      (?c\<lparr>backbone_kwargs := [(''pretrained'', PBool True), (''pretrained_weights'', PStr ''imagenet'')]\<rparr>)) = Inr None"
    by (simp add: main_blocks run_simps plain_env_def byol_acdc_def)
  note t = dali_without_dependency_fails[OF h]
  have e: "\<not> (\<exists>ev \<in> set (trace (main plain_env ?c)). standard_backend ev)"
    using t[THEN conjunct2, THEN conjunct1] by blast
  have "result (main plain_env ?c) = Inl (AssertionError dali_message)"
    using t[THEN conjunct2, THEN conjunct2] r m v by blast
  then show ?thesis
    using h e by (simp add: dali_message_def)
qed


subsection \<open>What the trainer is constructed with\<close>

text \<open>
  C3. Every keyword dictionary \<^verbatim>\<open>main\<close> hands to \<^verbatim>\<open>Trainer\<close> has no key besides
  the parameter names of \<^verbatim>\<open>Trainer.__init__\<close> and the four keys the script sets
  itself; as the constructor declares those four, every key is a declared parameter. The
  four keys carry the values the script computed: \<^verbatim>\<open>False\<close> for
  \<^verbatim>\<open>enable_checkpointing\<close>, the strategy object for \<^verbatim>\<open>"ddp"\<close> and the configured
  strategy otherwise, the callback list that the callback block of this very run
  returned, and the logger that block returned when logging is enabled (there is one
  then), \<^verbatim>\<open>None\<close> otherwise; this holds whatever the configuration has under the
  same names.
\<close>

theorem trainer_kwargs_declared_and_overridden:
  assumes "Make_trainer kw \<in> set (trace (main E cfg))"
  shows "fst ` set kw \<subseteq> set (trainer_parameters E)
                          \<union> {''logger'', ''callbacks'', ''enable_checkpointing'', ''strategy''}
   \<and> ({''logger'', ''callbacks'', ''enable_checkpointing'', ''strategy''}
         \<subseteq> set (trainer_parameters E)
        \<longrightarrow> fst ` set kw \<subseteq> set (trainer_parameters E))
   \<and> map_of kw ''enable_checkpointing'' = Some (Py (PBool False))
   \<and> map_of kw ''strategy'' = Some (if strategy (parse_cfg E cfg) = PStr ''ddp''
                                    then DDPStrategy False else Py (strategy (parse_cfg E cfg)))
   \<and> (\<exists>c c1 model vl dm loader c2 ckpt run_id callbacks logger.
          result (startup_checks E cfg) = Inr c
        \<and> result (model_assembly E c) = Inr (c1, model)
        \<and> result (validation_loader E c1) = Inr vl
        \<and> result (pretrain_data E c1 vl) = Inr (dm, loader)
        \<and> result (resume E c1) = Inr (c2, ckpt, run_id)
        \<and> result (assemble_callbacks E c2 model run_id) = Inr (callbacks, logger)
        \<and> map_of kw ''callbacks'' = Some (Callbacks callbacks)
        \<and> (if wandb_enabled (parse_cfg E cfg)
            then \<exists>w. logger = Some w \<and> map_of kw ''logger'' = Some (Logger w)
            else map_of kw ''logger'' = Some (Py PNone)))"
  using assms
proof (cases rule: main_event_cases)
  case startup
  from startup_origin[OF startup] show ?thesis by simp
next
  case (model c)
  from model_origin[OF model(2)] show ?thesis by simp
next
  case (validation c c1 model)
  from validation_origin[OF validation(3)] show ?thesis by simp
next
  case (data c c1 model vl)
  from data_origin[OF data(4)] show ?thesis by simp
next
  case (resume c c1 model vl dm loader)
  from resume_origin[OF resume(5)] show ?thesis by simp
next
  case (hooks c c1 model vl dm loader c2 ckpt run_id)
  from hooks_origin[OF hooks(6)] show ?thesis by simp
next
  case (trainer c c1 model vl dm loader c2 ckpt run_id callbacks logger)
  have same: "strategy c2 = strategy (parse_cfg E cfg)"
    "wandb_enabled c2 = wandb_enabled (parse_cfg E cfg)"
    using startup_result[OF trainer(1)] model_assembly_cfg[OF trainer(2)] resume_cfg[OF trainer(5)]
    by auto
  note k = make_trainer_kwargs[OF trainer(7), unfolded same]
  note keys = k[THEN conjunct1]
  note declared = k[THEN conjunct2, THEN conjunct1]
  note logger_entry = k[THEN conjunct2, THEN conjunct2, THEN conjunct1]
  note hooks_entry = k[THEN conjunct2, THEN conjunct2, THEN conjunct2, THEN conjunct1]
  note flag = k[THEN conjunct2, THEN conjunct2, THEN conjunct2, THEN conjunct2, THEN conjunct1]
  note strat = k[THEN conjunct2, THEN conjunct2, THEN conjunct2, THEN conjunct2, THEN conjunct2]
  have logged: "if wandb_enabled (parse_cfg E cfg)
            then \<exists>w. logger = Some w \<and> map_of kw ''logger'' = Some (Logger w)
            else map_of kw ''logger'' = Some (Py PNone)"
  proof (cases "wandb_enabled (parse_cfg E cfg)")
    case True
    from make_trainer_event[OF trainer(7)]
    obtain w where "wandb_enabled c2 \<longrightarrow> logger = Some w" by blast
    with True same(2) have "logger = Some w" by simp
    with True logger_entry show ?thesis by simp
  next
    case False
    with logger_entry show ?thesis by simp
  qed
  have computed: "\<exists>c c1 model vl dm loader c2 ckpt run_id callbacks logger.
          result (startup_checks E cfg) = Inr c
        \<and> result (model_assembly E c) = Inr (c1, model)
        \<and> result (validation_loader E c1) = Inr vl
        \<and> result (pretrain_data E c1 vl) = Inr (dm, loader)
        \<and> result (resume E c1) = Inr (c2, ckpt, run_id)
        \<and> result (assemble_callbacks E c2 model run_id) = Inr (callbacks, logger)
        \<and> map_of kw ''callbacks'' = Some (Callbacks callbacks)
        \<and> (if wandb_enabled (parse_cfg E cfg)
            then \<exists>w. logger = Some w \<and> map_of kw ''logger'' = Some (Logger w)
            else map_of kw ''logger'' = Some (Py PNone))"
    by (intro exI conjI)
       (rule trainer(1), rule trainer(2), rule trainer(3), rule trainer(4), rule trainer(5),
        rule trainer(6), rule hooks_entry, rule logged)
  show ?thesis
    by (intro conjI) (rule keys, rule declared, rule flag, rule strat, rule computed)
next
  case patch
  then show ?thesis by simp
next
  case (fit c c1 model vl dm loader c2 ckpt run_id tr)
  from dispatch_origin[OF fit(6)] show ?thesis by simp
qed

theorem trainer_kwargs_declared_and_overridden_witness:
  "Make_trainer [(''logger'', Py PNone), (''strategy'', DDPStrategy False),
                 (''max_epochs'', Py (PInt 400)),
                 (''callbacks'', Callbacks
                    [Checkpointer
                       (byol_acdc\<lparr>backbone_kwargs := [(''pretrained'', PBool True),
                                                      (''pretrained_weights'', PStr ''imagenet'')]\<rparr>)
                       ''trained_models/byol_acdc'' 1 1,
                     WeightsSaver (BaseMomentumMethod [(''w'', [1])] [(''w'', [2])])
                       [5, 10, 50, 100, 200, 300, 400]]),
                 (''enable_checkpointing'', Py (PBool False))]
     \<in> set (trace (main plain_env byol_acdc))
   \<and> map_of (other byol_acdc) ''logger'' = Some (PStr ''csv'')
   \<and> strategy byol_acdc = PStr ''ddp''
   \<and> {''logger'', ''callbacks'', ''enable_checkpointing'', ''strategy''}
         \<subseteq> set (trainer_parameters plain_env)"
proof -
  have h: "Make_trainer [(''logger'', Py PNone), (''strategy'', DDPStrategy False),
                 (''max_epochs'', Py (PInt 400)),
                 (''callbacks'', Callbacks
                    [Checkpointer
                       (byol_acdc\<lparr>backbone_kwargs := [(''pretrained'', PBool True),
                                                      (''pretrained_weights'', PStr ''imagenet'')]\<rparr>)
                       ''trained_models/byol_acdc'' 1 1,
                     WeightsSaver (BaseMomentumMethod [(''w'', [1])] [(''w'', [2])])
                       [5, 10, 50, 100, 200, 300, 400]]),
                 (''enable_checkpointing'', Py (PBool False))]
     \<in> set (trace (main plain_env byol_acdc))"
    by (simp add: main_blocks run_simps milestones_def plain_env_def byol_acdc_def)
  show ?thesis
    using h trainer_kwargs_declared_and_overridden[OF h]
    by (simp add: plain_env_def byol_acdc_def)
qed

end
